theory Spec2Isabelle
  imports Main "HOL-Library.Word"
begin

section \<open>How a call ends\<close>

text \<open>
  A call of the library either returns a value, or ends the process through
  \<^verbatim>\<open>abort()\<close> after printing an error (the error code and the message are kept), or
  touches memory it must not touch (a null or dangling pointer, a read past an array),
  which C leaves undefined.
\<close>

datatype 'a outcome = Returns 'a | Aborts int string | Fault

text \<open>
  A run is the outcome of a call together with the calls it made, in order, to functions
  that are reached through pointers, to the vendor libraries and to the allocator.
  \<open>then_run m k\<close> continues with \<open>k\<close> when the first part returned, and stops otherwise.
\<close>

definition then_run ::
  "'a outcome \<times> 'e list \<Rightarrow> ('a \<Rightarrow> 'b outcome \<times> 'e list) \<Rightarrow> 'b outcome \<times> 'e list" where
  "then_run m k =
     (case m of
        (Returns a, tr) \<Rightarrow> (case k a of (r, tr') \<Rightarrow> (r, tr @ tr'))
      | (Aborts c s, tr) \<Rightarrow> (Aborts c s, tr)
      | (Fault, tr) \<Rightarrow> (Fault, tr))"

section \<open>The core: src/feme.c\<close>

subsection \<open>Contexts and error handlers\<close>

text \<open>
  The two error handlers of src/feme.c, as values of the \<^verbatim>\<open>Error\<close> function pointer of a
  context. A context (\<^verbatim>\<open>Feme\<close>) is a pointer to a heap structure; the fields below are
  the ones src/feme.c reads or writes. \<open>'f\<close> is the type of pointers to backend functions;
  \<open>None\<close> is the null pointer, which is what \<^verbatim>\<open>calloc\<close> leaves in every field.
\<close>

datatype errhandler = ErrorReturn | ErrorAbort

record 'f Feme_s =
  Error :: "errhandler option"
  Destroy :: "'f option"

type_synonym addr = nat

type_synonym 'f heap = "addr \<rightharpoonup> 'f Feme_s"

definition FemeErrorReturn :: "int \<Rightarrow> string \<Rightarrow> int outcome" where
  "FemeErrorReturn ecode format = Returns ecode"

definition FemeErrorAbort :: "int \<Rightarrow> string \<Rightarrow> int outcome" where
  "FemeErrorAbort ecode format = Aborts ecode format"

text \<open>
  \<^verbatim>\<open>FemeErrorImpl\<close>: with a context, its handler decides; without one, \<^verbatim>\<open>FemeErrorAbort\<close>.
  The argument is the structure the pointer \<^verbatim>\<open>feme\<close> leads to, \<open>None\<close> for a null pointer.
\<close>

definition FemeErrorImpl :: "'f Feme_s option \<Rightarrow> int \<Rightarrow> string \<Rightarrow> int outcome" where
  "FemeErrorImpl feme ecode format =
     (case feme of
        Some s \<Rightarrow>
          (case Error s of
             None \<Rightarrow> Fault
           | Some ErrorReturn \<Rightarrow> FemeErrorReturn ecode format
           | Some ErrorAbort \<Rightarrow> FemeErrorAbort ecode format)
      | None \<Rightarrow> FemeErrorAbort ecode format)"

text \<open>
  Modelled from the spec: the macros \<^verbatim>\<open>FemeError\<close>, \<^verbatim>\<open>FemeChk\<close> and \<^verbatim>\<open>FemeCalloc\<close> and the
  constant \<^verbatim>\<open>FEME_MAX_RESOURCE_LEN\<close> are declared in feme-impl.h, which is not among the
  sources. \<^verbatim>\<open>FemeError(feme, ecode, ...)\<close> is the reporting surface
  "report(context-or-null, location, errorCode, message) -> errorCode; absent context or
  unset handler defaults to printing and terminating the process": it passes its
  arguments to \<^verbatim>\<open>FemeErrorImpl\<close>. \<^verbatim>\<open>FemeChk(ierr)\<close> is "every fallible step returns an
  error immediately; the first failure propagates unchanged": it returns \<^verbatim>\<open>ierr\<close> from
  the enclosing function when \<^verbatim>\<open>ierr\<close> is not 0, and is written out as such in each
  function below. \<^verbatim>\<open>FemeCalloc(n, p)\<close> is \<^verbatim>\<open>FemeCallocArray(n, sizeof(**p), p)\<close>.
  \<^verbatim>\<open>FEME_MAX_RESOURCE_LEN\<close> is a parameter of the functions that use it.
\<close>

definition FemeError :: "'f Feme_s option \<Rightarrow> int \<Rightarrow> string \<Rightarrow> int outcome" where
  "FemeError feme ecode format = FemeErrorImpl feme ecode format"

subsection \<open>The registry\<close>

text \<open>
  The table \<^verbatim>\<open>backends[32]\<close> with its counter \<^verbatim>\<open>num_backends\<close> is the list of the
  entries written so far, in registration order. An entry holds the character array
  \<^verbatim>\<open>prefix\<close>, read as a C string (the characters before the first NUL), and the pointer
  \<^verbatim>\<open>init\<close>. The functions that only read entries are written for any extension of the
  record, so that they also apply to entries that carry further fields.
\<close>

record 'f backend =
  prefix :: string
  init :: 'f

text \<open>
  \<^verbatim>\<open>FemeRegister\<close>. \<^verbatim>\<open>strncpy\<close> copies at most \<^verbatim>\<open>FEME_MAX_RESOURCE_LEN\<close> characters and
  pads with NUL; a prefix of that length or more leaves the array without a terminator.
\<close>

definition FemeRegister ::
  "nat \<Rightarrow> string \<Rightarrow> 'f \<Rightarrow> 'f backend list \<Rightarrow> (int \<times> 'f backend list) outcome" where
  "FemeRegister FEME_MAX_RESOURCE_LEN p f backends =
     (if length backends \<ge> 32 then
        map_outcome (\<lambda>e. (e, backends))
          (FemeError (None :: 'f Feme_s option) 1 ''Too many backends'')
      else
        Returns (0, backends @ [\<lparr>prefix = take FEME_MAX_RESOURCE_LEN p, init = f\<rparr>]))"

subsection \<open>Memory\<close>

text \<open>
  \<^verbatim>\<open>FemeCallocArray\<close>: \<open>p\<close> is the pointer \<^verbatim>\<open>calloc\<close> returned (\<open>None\<close> when it failed),
  which the function stores in the caller's variable.
\<close>

definition FemeCallocArray :: "addr option \<Rightarrow> nat \<Rightarrow> nat \<Rightarrow> int outcome" where
  "FemeCallocArray p n unit =
     (if n \<noteq> 0 \<and> unit \<noteq> 0 \<and> p = None then
        FemeError (None :: unit Feme_s option) 1
          (''calloc failed to allocate %zd members of size %zd'' @ [CHR 0x0A])
      else Returns 0)"

text \<open>
  \<^verbatim>\<open>FemeFree\<close>: frees the block the caller's pointer leads to and sets the pointer to
  null. \<^verbatim>\<open>free(NULL)\<close> does nothing; freeing a block that is not allocated is undefined.
  The result is the return value, the caller's pointer and the heap.
\<close>

definition FemeFree :: "addr option \<Rightarrow> 'f heap \<Rightarrow> (int \<times> addr option \<times> 'f heap) outcome" where
  "FemeFree p h =
     (case p of
        None \<Rightarrow> Returns (0, None, h)
      | Some a \<Rightarrow> (if h a = None then Fault else Returns (0, None, h(a := None))))"

subsection \<open>Resolution: FemeInit\<close>

text \<open>
  The inner loop \<^verbatim>\<open>for (n = 0; prefix[n] && prefix[n] == resource[n]; n++) {}\<close> on two C
  strings: the end of a list is the terminating NUL, so the loop stops at the end of the
  prefix (\<^verbatim>\<open>prefix[n]\<close> is 0) and at the end of the resource (\<^verbatim>\<open>prefix[n]\<close> is not 0 and
  \<^verbatim>\<open>resource[n]\<close> is).
\<close>

fun common_len :: "string \<Rightarrow> string \<Rightarrow> nat" where
  "common_len (p # ps) (r # rs) = (if p = r then Suc (common_len ps rs) else 0)"
| "common_len _ _ = 0"

text \<open>
  The array holds \<^verbatim>\<open>FEME_MAX_RESOURCE_LEN\<close> characters. When the loop has matched that
  many, the array has no terminator and the next test reads past it: undefined, \<open>None\<close>.
\<close>

definition scan_prefix :: "nat \<Rightarrow> string \<Rightarrow> string \<Rightarrow> nat option" where
  "scan_prefix FEME_MAX_RESOURCE_LEN p resource =
     (let n = common_len p resource in
      if n < FEME_MAX_RESOURCE_LEN then Some n else None)"

text \<open>
  The outer loop, from index \<open>i\<close> on, with the pair \<^verbatim>\<open>(matchlen, matchidx)\<close>;
  \<^verbatim>\<open>matchidx\<close> starts uninitialised (\<open>None\<close>).
\<close>

fun FemeInit_loop ::
  "nat \<Rightarrow> ('f, 'm) backend_scheme list \<Rightarrow> string \<Rightarrow> nat \<Rightarrow> nat \<times> nat option \<Rightarrow>
   (nat \<times> nat option) option" where
  "FemeInit_loop N [] resource i acc = Some acc"
| "FemeInit_loop N (b # bs) resource i (matchlen, matchidx) =
     (case scan_prefix N (prefix b) resource of
        None \<Rightarrow> None
      | Some n \<Rightarrow>
          FemeInit_loop N bs resource (Suc i)
            (if n > matchlen then (n, Some i) else (matchlen, matchidx)))"

text \<open>
  Calls through function pointers: a backend's initializer with the resource and the
  new context, a backend's \<^verbatim>\<open>Destroy\<close> with the context. What such a function does is
  given by a parameter: from the pointer, its arguments and the heap to an outcome.
\<close>

datatype 'f call = InitCall 'f string addr | DestroyCall 'f addr

type_synonym 'f run_init = "'f \<Rightarrow> string \<Rightarrow> addr \<Rightarrow> 'f heap \<Rightarrow> (int \<times> 'f heap) outcome"

type_synonym 'f run_destroy = "'f \<Rightarrow> addr \<Rightarrow> 'f heap \<Rightarrow> (int \<times> 'f heap) outcome"

text \<open>
  \<^verbatim>\<open>FemeInit\<close>. \<open>fresh\<close> is the pointer \<^verbatim>\<open>calloc\<close> returns, \<open>feme\<close> the caller's variable
  before the call. The result is the return value, the caller's variable and the heap.
  The size of the structure is positive (it has at least the two pointers above).
\<close>

definition FemeInit ::
  "nat \<Rightarrow> 'f run_init \<Rightarrow> ('f, 'm) backend_scheme list \<Rightarrow> addr option \<Rightarrow> string \<Rightarrow>
   addr option \<Rightarrow> 'f heap \<Rightarrow> (int \<times> addr option \<times> 'f heap) outcome \<times> 'f call list" where
  "FemeInit N run backends fresh resource feme h =
     (case FemeInit_loop N backends resource 0 (0, None) of
        None \<Rightarrow> (Fault, [])
      | Some (matchlen, matchidx) \<Rightarrow>
          if matchlen = 0 then
            (map_outcome (\<lambda>e. (e, feme, h))
               (FemeError (None :: 'f Feme_s option) 1 ''No suitable backend''), [])
          else
            then_run (FemeCallocArray fresh 1 16, [])
              (\<lambda>ierr.
                 if ierr \<noteq> 0 then (Returns (ierr, fresh, h), [])
                 else
                   (case (fresh, matchidx) of
                      (Some a, Some i) \<Rightarrow>
                        let h1 = h(a \<mapsto> \<lparr>Error = Some ErrorAbort, Destroy = None\<rparr>);
                            f = init (backends ! i)
                        in then_run (run f resource a h1, [InitCall f resource a])
                             (\<lambda>(ierr, h2).
                                if ierr \<noteq> 0 then (Returns (ierr, Some a, h2), [])
                                else (Returns (0, Some a, h2), []))
                    | _ \<Rightarrow> (Fault, []))))"

subsection \<open>Destruction: FemeDestroy\<close>

definition FemeDestroy ::
  "'f run_destroy \<Rightarrow> addr option \<Rightarrow> 'f heap \<Rightarrow>
   (int \<times> addr option \<times> 'f heap) outcome \<times> 'f call list" where
  "FemeDestroy run feme h =
     (case feme of
        None \<Rightarrow> (Returns (0, None, h), [])
      | Some a \<Rightarrow>
          (case h a of
             None \<Rightarrow> (Fault, [])
           | Some s \<Rightarrow>
               then_run
                 (case Destroy s of
                    None \<Rightarrow> (Returns (0, h), [])
                  | Some f \<Rightarrow> (run f a h, [DestroyCall f a]))
                 (\<lambda>(ierr, h1).
                    if ierr \<noteq> 0 then (Returns (ierr, Some a, h1), [])
                    else
                      then_run (FemeFree (Some a) h1, [])
                        (\<lambda>(ierr, p, h2).
                           if ierr \<noteq> 0 then (Returns (ierr, p, h2), [])
                           else (Returns (0, p, h2), [])))))"

subsection \<open>Registration with a priority\<close>

text \<open>
  Modelled from the spec: \<^verbatim>\<open>CeedRegister(prefix, init, priority)\<close>, which the backends call
  from their constructors, is not among the sources (only these calls are).
  "register(prefix, initializer[, priority]) appends an entry; fails with CapacityExceeded
  once a fixed slot limit (e.g. 32) is reached", an entry being "BackendRegistration
  {prefix: string, initializer: function ref, priority: integer}". It is \<^verbatim>\<open>FemeRegister\<close>
  with the priority kept in the entry.
\<close>

record 'f backend_p = "'f backend" +
  priority :: nat

definition CeedRegister ::
  "nat \<Rightarrow> string \<Rightarrow> 'f \<Rightarrow> nat \<Rightarrow> 'f backend_p list \<Rightarrow> (int \<times> 'f backend_p list) outcome" where
  "CeedRegister FEME_MAX_RESOURCE_LEN p f pr backends =
     (if length backends \<ge> 32 then
        map_outcome (\<lambda>e. (e, backends))
          (FemeError (None :: 'f Feme_s option) 1 ''Too many backends'')
      else
        Returns (0, backends @
          [\<lparr>prefix = take FEME_MAX_RESOURCE_LEN p, init = f, priority = pr\<rparr>]))"

text \<open>
  A sequence of registrations, as the constructors make them at process start: each
  constructor drops the value \<^verbatim>\<open>CeedRegister\<close> returns.
\<close>

fun CeedRegister_all ::
  "nat \<Rightarrow> (string \<times> 'f \<times> nat) list \<Rightarrow> 'f backend_p list \<Rightarrow> 'f backend_p list outcome" where
  "CeedRegister_all N [] backends = Returns backends"
| "CeedRegister_all N ((p, f, pr) # rest) backends =
     (case CeedRegister N p f pr backends of
        Returns (ierr, backends') \<Rightarrow> CeedRegister_all N rest backends'
      | Aborts c m \<Rightarrow> Aborts c m
      | Fault \<Rightarrow> Fault)"

subsection \<open>What resolution is to select, in the words of the specification\<close>

text \<open>
  "For every registered prefix, compute the length of the common leading substring shared
  with resource; select the entry with the strictly greatest match length. Ties resolve
  by registration order (first registered wins)." \<open>common_leading\<close> is that substring;
  \<open>greatest_match_first bs r k\<close> says that entry \<open>k\<close> has the greatest match length
  and that every entry registered before it has a smaller one.
\<close>

definition common_leading :: "string \<Rightarrow> string \<Rightarrow> string" where
  "common_leading p r = map fst (takeWhile (\<lambda>(a, b). a = b) (zip p r))"

definition greatest_match_first :: "('f, 'm) backend_scheme list \<Rightarrow> string \<Rightarrow> nat \<Rightarrow> bool" where
  "greatest_match_first bs r k \<longleftrightarrow>
     k < length bs \<and>
     list_all (\<lambda>j. length (common_leading (prefix (bs ! j)) r)
                  \<le> length (common_leading (prefix (bs ! k)) r)) [0..<length bs] \<and>
     list_all (\<lambda>j. length (common_leading (prefix (bs ! j)) r)
                  < length (common_leading (prefix (bs ! k)) r)) [0..<k]"

text \<open>The three registrations of the specification's examples, in this order.\<close>

definition example_backends :: "string backend list" where
  "example_backends =
     [\<lparr>prefix = ''/gpu/cuda/ref'', init = ''CeedInit_Cuda''\<rparr>,
      \<lparr>prefix = ''/gpu/hip/ref'', init = ''CeedInit_Hip''\<rparr>,
      \<lparr>prefix = ''/cpu/occa'', init = ''registerBackend''\<rparr>]"

section \<open>What the backends use from the rest of the library and from libc\<close>

subsection \<open>Formatting and parsing\<close>

text \<open>
  \<^verbatim>\<open>%d\<close> of \<^verbatim>\<open>printf\<close> and \<^verbatim>\<open>std::to_string\<close> on an \<^verbatim>\<open>int\<close>: the decimal digits, with a
  minus sign for a negative value. The equation of \<open>show_nat\<close> is not a rewrite rule
  by default: it would unfold without end on a number that is not known.
\<close>

fun show_nat :: "nat \<Rightarrow> string" where
  "show_nat n =
     (if n < 10 then [''0123456789'' ! n]
      else show_nat (n div 10) @ [''0123456789'' ! (n mod 10)])"

declare show_nat.simps [simp del]

definition show_int :: "int \<Rightarrow> string" where
  "show_int i = (if i < 0 then CHR ''-'' # show_nat (nat (- i)) else show_nat (nat i))"

text \<open>
  \<^verbatim>\<open>snprintf(buf, n, ...)\<close> writes at most \<^verbatim>\<open>n - 1\<close> characters of the formatted text
  and a terminator; the argument here is the formatted text.
\<close>

definition snprintf :: "nat \<Rightarrow> string \<Rightarrow> string" where
  "snprintf n s = take (n - 1) s"

text \<open>
  \<^verbatim>\<open>atoi\<close>: leading white space is skipped, then an optional sign and the decimal digits
  that follow are read; with no digit the value is 0. (A value outside \<^verbatim>\<open>int\<close> is left
  undefined by C; the result here is the mathematical value.)
\<close>

definition isspace :: "char \<Rightarrow> bool" where
  "isspace c = (c = CHR '' '' \<or> (9 \<le> (of_char c :: nat) \<and> (of_char c :: nat) \<le> 13))"

definition isdigit :: "char \<Rightarrow> bool" where
  "isdigit c = (48 \<le> (of_char c :: nat) \<and> (of_char c :: nat) \<le> 57)"

fun digits_value :: "int \<Rightarrow> string \<Rightarrow> int" where
  "digits_value acc [] = acc"
| "digits_value acc (c # cs) =
     (if isdigit c then digits_value (10 * acc + (of_char c - 48)) cs else acc)"

definition atoi :: "string \<Rightarrow> int" where
  "atoi s =
     (case dropWhile isspace s of
        [] \<Rightarrow> 0
      | c # cs \<Rightarrow>
          if c = CHR ''-'' then - digits_value 0 cs
          else if c = CHR ''+'' then digits_value 0 cs
          else digits_value 0 (c # cs))"

text \<open>
  \<^verbatim>\<open>strncmp\<close> on two C strings: 0 when the first \<open>n\<close> characters agree (a string that
  ends earlier ends the comparison), otherwise the difference at the first position
  where they differ.
\<close>

fun strncmp :: "string \<Rightarrow> string \<Rightarrow> nat \<Rightarrow> int" where
  "strncmp s1 s2 0 = 0"
| "strncmp [] [] (Suc n) = 0"
| "strncmp [] (b # s2) (Suc n) = - of_char b"
| "strncmp (a # s1) [] (Suc n) = of_char a"
| "strncmp (a # s1) (b # s2) (Suc n) =
     (if a = b then strncmp s1 s2 n else of_char a - of_char b)"

text \<open>
  \<^verbatim>\<open>std::string::find\<close>: the first position at which the second string occurs in the
  first, \<open>None\<close> for \<^verbatim>\<open>npos\<close>.
\<close>

fun str_find :: "string \<Rightarrow> string \<Rightarrow> nat option" where
  "str_find [] sub = (if sub = [] then Some 0 else None)"
| "str_find (c # cs) sub =
     (if take (length sub) (c # cs) = sub then Some 0
      else map_option Suc (str_find cs sub))"

subsection \<open>Contexts of the later interface\<close>

text \<open>
  Modelled from the spec: the backends are written against the later names of the core
  (\<^verbatim>\<open>Ceed\<close> for \<^verbatim>\<open>Feme\<close>), whose files (ceed.c, ceed-impl.h, ceed-backend.h, ceed-cuda.h,
  ceed-hip.h) are not among the sources. The context is "Context {error-handler: function
  ref, backend-private-data: exclusively-owned opaque blob, dispatch-table}", the table
  being a map from operation names to backend functions (named by their C identifiers).
  \<^verbatim>\<open>CeedError\<close> is "report(context-or-null, location, errorCode, message) -> errorCode;
  absent context or unset handler defaults to printing and terminating the process", with
  the two handlers of src/feme.c; its message is the formatted text. The macros
  \<^verbatim>\<open>CeedChk\<close>, \<^verbatim>\<open>CeedChk_Cu\<close>, \<^verbatim>\<open>CeedChk_Nvrtc\<close>, \<^verbatim>\<open>CeedChk_Hip\<close>, \<^verbatim>\<open>CeedChk_Hiprtc\<close> and
  \<^verbatim>\<open>CeedChk_ModHip\<close> are "every fallible step returns an error immediately; no layer
  swallows errors": \<^verbatim>\<open>CeedChk(ierr)\<close> returns a non-zero \<^verbatim>\<open>ierr\<close> from the enclosing
  function, and the vendor checks report a non-zero vendor result through \<^verbatim>\<open>CeedError\<close>
  with that result as the code (the message they give is a parameter, \<open>chk_message\<close>)
  and return what it returns. \<^verbatim>\<open>CeedGetData\<close> and \<^verbatim>\<open>CeedSetData\<close> read and write the
  backend-private data and return 0. \<^verbatim>\<open>CeedMalloc\<close>, \<^verbatim>\<open>CeedCalloc\<close> and \<^verbatim>\<open>CeedFree\<close> are
  \<^verbatim>\<open>FemeMallocArray\<close>, \<^verbatim>\<open>FemeCallocArray\<close> and \<^verbatim>\<open>FemeFree\<close> of src/feme.c under their later
  names. \<^verbatim>\<open>CeedSetBackendFunction\<close> is "registerFunction(context, interfaceTag,
  operationName, fn) installs an entry keyed by operationName, failing with
  DuplicateOrInvalid if rejected"; which names are rejected is a parameter, \<open>rejects\<close>.
\<close>

record 'd Ceed_s =
  error_handler :: "errhandler option"
  backend_data :: "'d option"
  dispatch_table :: "string \<rightharpoonup> string"

record lib_env =
  posix_memalign :: "nat \<Rightarrow> int"
  calloc_fails :: bool
  rejects :: "string \<Rightarrow> bool"
  chk_message :: "int \<Rightarrow> string"

definition CeedError :: "'d Ceed_s \<Rightarrow> int \<Rightarrow> string \<Rightarrow> int outcome" where
  "CeedError ceed ecode msg =
     (case error_handler ceed of
        Some ErrorReturn \<Rightarrow> FemeErrorReturn ecode msg
      | _ \<Rightarrow> FemeErrorAbort ecode msg)"

text \<open>\<^verbatim>\<open>FemeMallocArray\<close> of src/feme.c; \<open>ierr\<close> is what \<^verbatim>\<open>posix_memalign\<close> returned.\<close>

definition FemeMallocArray :: "int \<Rightarrow> nat \<Rightarrow> nat \<Rightarrow> int outcome" where
  "FemeMallocArray ierr n unit =
     (if ierr \<noteq> 0 then
        FemeError (None :: unit Feme_s option) ierr
          (''posix_memalign failed to allocate %zd members of size %zd'' @ [CHR 0x0A])
      else Returns 0)"

definition CeedSetBackendFunction ::
  "lib_env \<Rightarrow> 'd Ceed_s \<Rightarrow> string \<Rightarrow> string \<Rightarrow> (int \<times> 'd Ceed_s) outcome" where
  "CeedSetBackendFunction env ceed fname f =
     (if rejects env fname then
        map_outcome (\<lambda>e. (e, ceed)) (CeedError ceed 1 (''DuplicateOrInvalid: '' @ fname))
      else Returns (0, ceed\<lparr>dispatch_table := (dispatch_table ceed)(fname \<mapsto> f)\<rparr>))"

text \<open>
  A run of statements \<^verbatim>\<open>ierr = CeedSetBackendFunction(ceed, "Ceed", ceed, name, f);
  CeedChk(ierr);\<close>, one for each pair of the list, in order.
\<close>

fun set_backend_functions ::
  "lib_env \<Rightarrow> (string \<times> string) list \<Rightarrow> 'd Ceed_s \<Rightarrow> (int \<times> 'd Ceed_s) outcome" where
  "set_backend_functions env [] ceed = Returns (0, ceed)"
| "set_backend_functions env ((fname, f) # rest) ceed =
     (case CeedSetBackendFunction env ceed fname f of
        Returns (ierr, ceed') \<Rightarrow>
          if ierr \<noteq> 0 then Returns (ierr, ceed') else set_backend_functions env rest ceed'
      | Aborts c m \<Rightarrow> Aborts c m
      | Fault \<Rightarrow> Fault)"

subsection \<open>Calls to the vendor libraries and the allocator\<close>

text \<open>
  The arguments of \<^verbatim>\<open>cuLaunchKernel\<close> and \<^verbatim>\<open>hipModuleLaunchKernel\<close>, under the names the
  driver interfaces give them. The dimensions and the shared memory size are
  \<^verbatim>\<open>unsigned int\<close> there; the launchers pass \<^verbatim>\<open>int\<close> values, which C converts.
\<close>

record launch =
  func :: nat
  gridDimX :: "32 word"
  gridDimY :: "32 word"
  gridDimZ :: "32 word"
  blockDimX :: "32 word"
  blockDimY :: "32 word"
  blockDimZ :: "32 word"
  sharedMemBytes :: "32 word"
  hStream :: "nat option"
  kernelParams :: nat
  extra :: "nat option"

text \<open>
  The calls a run records: those to the vendor libraries that act on the device, the
  compiler or a module, and those to the allocator. The making of an OCCA device is
  recorded with the "mode" property it is given.
\<close>

datatype api_call =
    CudaFree
  | NvrtcCreateProgram string
  | NvrtcCompileProgram nat "string list"
  | NvrtcGetProgramLogSize
  | NvrtcGetProgramLog
  | NvrtcGetPTXSize
  | NvrtcGetPTX
  | NvrtcDestroyProgram
  | CuModuleLoadData string
  | CuLaunchKernel launch
  | CudaGetDevice
  | CudaSetDevice int
  | CudaGetDeviceProperties int
  | HipFree
  | HiprtcCreateProgram string
  | HiprtcCompileProgram nat "string list"
  | HiprtcGetProgramLogSize
  | HiprtcGetProgramLog
  | HiprtcGetCodeSize
  | HiprtcGetCode
  | HiprtcDestroyProgram
  | HipModuleLoadData string
  | HipModuleLaunchKernel launch
  | HipGetDevice
  | HipSetDevice int
  | HipGetDeviceProperties int
  | OccaDevice "string option"
  | PosixMemalign nat
  | Calloc
  | Free

definition after :: "'e list \<Rightarrow> 'a outcome \<times> 'e list \<Rightarrow> 'a outcome \<times> 'e list" where
  "after tr m = (fst m, tr @ snd m)"

definition fail_with :: "'s \<Rightarrow> int outcome \<Rightarrow> (int \<times> 's) outcome \<times> 'e list" where
  "fail_with s r = (map_outcome (\<lambda>e. (e, s)) r, [])"

section \<open>The CUDA backend: src/backends/cuda/ceed-cuda.c\<close>

text \<open>
  The fields of \<^verbatim>\<open>struct cudaDeviceProp\<close> and of the backend's data \<^verbatim>\<open>Ceed_Cuda\<close> that the
  file reads or writes. \<^verbatim>\<open>calloc\<close> leaves 0 and the null pointer in the data.
\<close>

record cudaDeviceProp =
  major :: int
  minor :: int
  maxThreadsPerBlock :: int

record Ceed_Cuda =
  deviceId :: int
  optblocksize :: int
  cublasHandle :: "nat option"

text \<open>
  What the CUDA runtime, the driver and the runtime compiler answer. A result code of 0
  is success (\<^verbatim>\<open>NVRTC_SUCCESS\<close>, \<^verbatim>\<open>CUDA_SUCCESS\<close>, \<^verbatim>\<open>cudaSuccess\<close>). Within one call of a
  function below each of them is asked at most once, so an answer per question is as
  general as an answer per moment.
\<close>

record cuda_api =
  nvrtcCreateProgram :: "string \<Rightarrow> int"
  nvrtcCompileProgram :: "string \<Rightarrow> string list \<Rightarrow> int"
  nvrtcGetProgramLogSize :: "int \<times> nat"
  nvrtcGetProgramLog :: "int \<times> string"
  nvrtcGetPTXSize :: "int \<times> nat"
  nvrtcGetPTX :: "int \<times> string"
  nvrtcDestroyProgram :: int
  nvrtcGetErrorString :: "int \<Rightarrow> string"
  cuModuleLoadData :: "string \<Rightarrow> int \<times> nat"
  cuLaunchKernel :: "launch \<Rightarrow> int"
  cudaGetDevice :: "int \<times> int"
  cudaSetDevice :: "int \<Rightarrow> int"
  cudaGetDeviceProperties :: "int \<Rightarrow> int \<times> cudaDeviceProp"

definition optslen :: nat where
  "optslen = 32"

definition optsextra :: nat where
  "optsextra = 4"

text \<open>
  \<^verbatim>\<open>CeedCompileCuda\<close>, lines 65 to 72: the compiler has rejected the source with
  \<open>result\<close>. The results are the return value and the module written to the caller's
  variable, if any.
\<close>

definition CeedCompileCuda_rejected ::
  "lib_env \<Rightarrow> cuda_api \<Rightarrow> Ceed_Cuda Ceed_s \<Rightarrow> int \<Rightarrow>
   (int \<times> nat option) outcome \<times> api_call list" where
  "CeedCompileCuda_rejected env api ceed result =
     after [NvrtcGetProgramLogSize]
       (case nvrtcGetProgramLogSize api of
          (r, logsize) \<Rightarrow>
            if r \<noteq> 0 then fail_with None (CeedError ceed r (chk_message env r))
            else
              after [PosixMemalign logsize]
                (then_run (FemeMallocArray (posix_memalign env logsize) logsize 1, [])
                   (\<lambda>ierr.
                      if ierr \<noteq> 0 then (Returns (ierr, None), [])
                      else
                        after [NvrtcGetProgramLog]
                          (case nvrtcGetProgramLog api of
                             (r, log) \<Rightarrow>
                               if r \<noteq> 0 then
                                 fail_with None (CeedError ceed r (chk_message env r))
                               else
                                 fail_with None
                                   (CeedError ceed result
                                      (nvrtcGetErrorString api result @ [CHR 0x0A] @ log))))))"

text \<open>\<^verbatim>\<open>CeedCompileCuda\<close>, lines 74 to 83: the compiler has accepted the source.\<close>

definition CeedCompileCuda_accepted ::
  "lib_env \<Rightarrow> cuda_api \<Rightarrow> Ceed_Cuda Ceed_s \<Rightarrow> (int \<times> nat option) outcome \<times> api_call list" where
  "CeedCompileCuda_accepted env api ceed =
     after [NvrtcGetPTXSize]
       (case nvrtcGetPTXSize api of
          (r, ptxsize) \<Rightarrow>
            if r \<noteq> 0 then fail_with None (CeedError ceed r (chk_message env r))
            else
              after [PosixMemalign ptxsize]
                (then_run (FemeMallocArray (posix_memalign env ptxsize) ptxsize 1, [])
                   (\<lambda>ierr.
                      if ierr \<noteq> 0 then (Returns (ierr, None), [])
                      else
                        after [NvrtcGetPTX]
                          (case nvrtcGetPTX api of
                             (r, ptx) \<Rightarrow>
                               if r \<noteq> 0 then
                                 fail_with None (CeedError ceed r (chk_message env r))
                               else
                                 after [NvrtcDestroyProgram]
                                   (let r = nvrtcDestroyProgram api in
                                    if r \<noteq> 0 then
                                      fail_with None (CeedError ceed r (chk_message env r))
                                    else
                                      after [CuModuleLoadData ptx]
                                        (case cuModuleLoadData api ptx of
                                           (r, m) \<Rightarrow>
                                             if r \<noteq> 0 then
                                               fail_with None
                                                 (CeedError ceed r (chk_message env r))
                                             else
                                               after [Free] (Returns (0, Some m), [])))))))"

text \<open>
  \<^verbatim>\<open>CeedCompileCuda\<close>, lines 31 to 61: the option array \<^verbatim>\<open>opts\<close>. The variadic arguments
  are the list of (name, value) pairs, \<^verbatim>\<open>numopts\<close> is its length, and \<open>prop\<close> is what
  the device answered.
\<close>

definition CeedCompileCuda_opts :: "(string \<times> int) list \<Rightarrow> cudaDeviceProp \<Rightarrow> string list" where
  "CeedCompileCuda_opts options prop =
     (let buf = map (\<lambda>(name, val).
                  snprintf optslen (''-D'' @ name @ ''='' @ show_int val)) options;
          buff = snprintf optslen
                   (''-arch=compute_'' @ show_int (major prop) @ show_int (minor prop))
      in buf @ [''-DCeedScalar=double'', ''-DCeedInt=int'', ''-default-device'', buff])"

text \<open>\<^verbatim>\<open>CeedCompileCuda\<close>.\<close>

definition CeedCompileCuda ::
  "lib_env \<Rightarrow> cuda_api \<Rightarrow> Ceed_Cuda Ceed_s \<Rightarrow> string \<Rightarrow> (string \<times> int) list \<Rightarrow>
   (int \<times> nat option) outcome \<times> api_call list" where
  "CeedCompileCuda env api ceed source options =
     after [CudaFree, NvrtcCreateProgram source]
       (let r = nvrtcCreateProgram api source in
        if r \<noteq> 0 then fail_with None (CeedError ceed r (chk_message env r))
        else
          let numopts = length options in
            (case backend_data ceed of
               None \<Rightarrow> (Fault, [])
             | Some ceed_data \<Rightarrow>
                 after [CudaGetDeviceProperties (deviceId ceed_data)]
                   (case cudaGetDeviceProperties api (deviceId ceed_data) of
                      (ierr, prop) \<Rightarrow>
                        if ierr \<noteq> 0 then
                          fail_with None (CeedError ceed ierr (chk_message env ierr))
                        else
                          let opts = CeedCompileCuda_opts options prop;
                              result = nvrtcCompileProgram api source opts
                          in
                            after [NvrtcCompileProgram (numopts + optsextra) opts]
                              (if result \<noteq> 0 then
                                 CeedCompileCuda_rejected env api ceed result
                               else CeedCompileCuda_accepted env api ceed))))"

text \<open>The three launchers (\<open>kern\<close> is the argument \<^verbatim>\<open>kernel\<close>).\<close>

definition CeedRunKernelCuda ::
  "lib_env \<Rightarrow> cuda_api \<Rightarrow> 'd Ceed_s \<Rightarrow> nat \<Rightarrow> int \<Rightarrow> int \<Rightarrow> nat \<Rightarrow>
   int outcome \<times> api_call list" where
  "CeedRunKernelCuda env api ceed kern gridSize blockSize args =
     (let l = \<lparr>func = kern,
                gridDimX = word_of_int gridSize, gridDimY = 1, gridDimZ = 1,
                blockDimX = word_of_int blockSize, blockDimY = 1, blockDimZ = 1,
                sharedMemBytes = 0, hStream = None, kernelParams = args, extra = None\<rparr>;
          r = cuLaunchKernel api l
      in after [CuLaunchKernel l]
           (if r \<noteq> 0 then (CeedError ceed r (chk_message env r), [])
            else (Returns 0, [])))"

definition CeedRunKernelDimCuda ::
  "lib_env \<Rightarrow> cuda_api \<Rightarrow> 'd Ceed_s \<Rightarrow> nat \<Rightarrow> int \<Rightarrow> int \<Rightarrow> int \<Rightarrow> int \<Rightarrow> nat \<Rightarrow>
   int outcome \<times> api_call list" where
  "CeedRunKernelDimCuda env api ceed kern gridSize blockSizeX blockSizeY blockSizeZ args =
     (let l = \<lparr>func = kern,
                gridDimX = word_of_int gridSize, gridDimY = 1, gridDimZ = 1,
                blockDimX = word_of_int blockSizeX, blockDimY = word_of_int blockSizeY,
                blockDimZ = word_of_int blockSizeZ,
                sharedMemBytes = 0, hStream = None, kernelParams = args, extra = None\<rparr>;
          r = cuLaunchKernel api l
      in after [CuLaunchKernel l]
           (if r \<noteq> 0 then (CeedError ceed r (chk_message env r), [])
            else (Returns 0, [])))"

definition CeedRunKernelDimSharedCuda ::
  "lib_env \<Rightarrow> cuda_api \<Rightarrow> 'd Ceed_s \<Rightarrow> nat \<Rightarrow> int \<Rightarrow> int \<Rightarrow> int \<Rightarrow> int \<Rightarrow> int \<Rightarrow> nat \<Rightarrow>
   int outcome \<times> api_call list" where
  "CeedRunKernelDimSharedCuda env api ceed kern gridSize blockSizeX blockSizeY blockSizeZ
       sharedMemSize args =
     (let l = \<lparr>func = kern,
                gridDimX = word_of_int gridSize, gridDimY = 1, gridDimZ = 1,
                blockDimX = word_of_int blockSizeX, blockDimY = word_of_int blockSizeY,
                blockDimZ = word_of_int blockSizeZ,
                sharedMemBytes = word_of_int sharedMemSize, hStream = None,
                kernelParams = args, extra = None\<rparr>;
          r = cuLaunchKernel api l
      in after [CuLaunchKernel l]
           (if r \<noteq> 0 then (CeedError ceed r (chk_message env r), [])
            else (Returns 0, [])))"

text \<open>
  \<^verbatim>\<open>CeedCudaInit\<close>. \<^verbatim>\<open>nrc\<close> is the number of characters of the resource that the caller
  takes for the backend's name.
\<close>

definition CeedCudaInit ::
  "lib_env \<Rightarrow> cuda_api \<Rightarrow> Ceed_Cuda Ceed_s \<Rightarrow> string \<Rightarrow> nat \<Rightarrow>
   (int \<times> Ceed_Cuda Ceed_s) outcome \<times> api_call list" where
  "CeedCudaInit env api ceed resource nrc =
     (let rlen = length resource;
          slash = (if rlen > nrc then resource ! nrc = CHR ''/'' else False);
          deviceID = (if slash \<and> rlen > nrc + 1 then atoi (drop (nrc + 1) resource) else 0)
      in
        after [CudaGetDevice]
          (case cudaGetDevice api of
             (ierr, currentDeviceID) \<Rightarrow>
               if ierr \<noteq> 0 then fail_with ceed (CeedError ceed ierr (chk_message env ierr))
               else
                 let switch = (if currentDeviceID \<noteq> deviceID
                               then (cudaSetDevice api deviceID, [CudaSetDevice deviceID])
                               else (0, []))
                 in
                   after (snd switch)
                     (if fst switch \<noteq> 0 then
                        fail_with ceed
                          (CeedError ceed (fst switch) (chk_message env (fst switch)))
                      else
                        after [CudaGetDeviceProperties deviceID]
                          (case cudaGetDeviceProperties api deviceID of
                             (ierr, deviceProp) \<Rightarrow>
                               if ierr \<noteq> 0 then
                                 fail_with ceed
                                   (CeedError ceed ierr (chk_message env ierr))
                               else
                                 (case backend_data ceed of
                                    None \<Rightarrow> (Fault, [])
                                  | Some data \<Rightarrow>
                                      (Returns (0, ceed\<lparr>backend_data := Some
                                         (data\<lparr>deviceId := deviceID,
                                            optblocksize :=
                                              maxThreadsPerBlock deviceProp\<rparr>)\<rparr>),
                                       []))))))"

text \<open>
  \<^verbatim>\<open>CeedInit_Cuda\<close>, the initializer the backend registers under "/gpu/cuda/ref", and
  the operations it installs, in the order of the file.
\<close>

definition CeedInit_Cuda_functions :: "(string \<times> string) list" where
  "CeedInit_Cuda_functions =
     [(''GetPreferredMemType'', ''CeedGetPreferredMemType_Cuda''),
      (''VectorCreate'', ''CeedVectorCreate_Cuda''),
      (''BasisCreateTensorH1'', ''CeedBasisCreateTensorH1_Cuda''),
      (''BasisCreateH1'', ''CeedBasisCreateH1_Cuda''),
      (''ElemRestrictionCreate'', ''CeedElemRestrictionCreate_Cuda''),
      (''ElemRestrictionCreateBlocked'', ''CeedElemRestrictionCreateBlocked_Cuda''),
      (''QFunctionCreate'', ''CeedQFunctionCreate_Cuda''),
      (''QFunctionContextCreate'', ''CeedQFunctionContextCreate_Cuda''),
      (''OperatorCreate'', ''CeedOperatorCreate_Cuda''),
      (''CompositeOperatorCreate'', ''CeedCompositeOperatorCreate_Cuda''),
      (''Destroy'', ''CeedDestroy_Cuda'')]"

definition CeedInit_Cuda ::
  "lib_env \<Rightarrow> cuda_api \<Rightarrow> string \<Rightarrow> Ceed_Cuda Ceed_s \<Rightarrow>
   (int \<times> Ceed_Cuda Ceed_s) outcome \<times> api_call list" where
  "CeedInit_Cuda env api resource ceed =
     (let nrc = 9 in
      if strncmp resource ''/gpu/cuda/ref'' nrc \<noteq> 0 then
        fail_with ceed
          (CeedError ceed 1 (''Cuda backend cannot use resource: '' @ resource))
      else
        after [Calloc]
          (then_run
             (FemeCallocArray (if calloc_fails env then None else Some 0) 1 24, [])
             (\<lambda>ierr.
                if ierr \<noteq> 0 then (Returns (ierr, ceed), [])
                else
                  then_run
                    (CeedCudaInit env api
                       (ceed\<lparr>backend_data :=
                          Some \<lparr>deviceId = 0, optblocksize = 0, cublasHandle = None\<rparr>\<rparr>)
                       resource nrc)
                    (\<lambda>(ierr, ceed1).
                       if ierr \<noteq> 0 then (Returns (ierr, ceed1), [])
                       else (set_backend_functions env CeedInit_Cuda_functions ceed1, [])))))"

section \<open>The HIP backend: src/backends/hip/ceed-hip.cpp\<close>

text \<open>
  The fields of \<^verbatim>\<open>hipDeviceProp_t\<close> and of the backend's data \<^verbatim>\<open>Ceed_Hip\<close> that the file
  reads or writes, and what the HIP runtime and its runtime compiler answer.
\<close>

record hipDeviceProp_t =
  gcnArch :: int
  maxThreadsPerBlock :: int

record Ceed_Hip =
  deviceId :: int
  optblocksize :: int

record hip_api =
  hiprtcCreateProgram :: "string \<Rightarrow> int"
  hiprtcCompileProgram :: "string \<Rightarrow> string list \<Rightarrow> int"
  hiprtcGetProgramLogSize :: "int \<times> nat"
  hiprtcGetProgramLog :: "int \<times> string"
  hiprtcGetCodeSize :: "int \<times> nat"
  hiprtcGetCode :: "int \<times> string"
  hiprtcDestroyProgram :: int
  hiprtcGetErrorString :: "int \<Rightarrow> string"
  hipModuleLoadData :: "string \<Rightarrow> int \<times> nat"
  hipModuleLaunchKernel :: "launch \<Rightarrow> int"
  hipGetDevice :: "int \<times> int"
  hipSetDevice :: "int \<Rightarrow> int"
  hipGetDeviceProperties :: "int \<Rightarrow> int \<times> hipDeviceProp_t"

text \<open>\<^verbatim>\<open>CeedCompileHip\<close>, lines 62 to 69: the compiler has rejected the source.\<close>

definition CeedCompileHip_rejected ::
  "lib_env \<Rightarrow> hip_api \<Rightarrow> Ceed_Hip Ceed_s \<Rightarrow> int \<Rightarrow>
   (int \<times> nat option) outcome \<times> api_call list" where
  "CeedCompileHip_rejected env api ceed result =
     after [HiprtcGetProgramLogSize]
       (case hiprtcGetProgramLogSize api of
          (r, logsize) \<Rightarrow>
            if r \<noteq> 0 then fail_with None (CeedError ceed r (chk_message env r))
            else
              after [PosixMemalign logsize]
                (then_run (FemeMallocArray (posix_memalign env logsize) logsize 1, [])
                   (\<lambda>ierr.
                      if ierr \<noteq> 0 then (Returns (ierr, None), [])
                      else
                        after [HiprtcGetProgramLog]
                          (case hiprtcGetProgramLog api of
                             (r, log) \<Rightarrow>
                               if r \<noteq> 0 then
                                 fail_with None (CeedError ceed r (chk_message env r))
                               else
                                 fail_with None
                                   (CeedError ceed result
                                      (hiprtcGetErrorString api result @ [CHR 0x0A] @ log))))))"

text \<open>\<^verbatim>\<open>CeedCompileHip\<close>, lines 71 to 81: the compiler has accepted the source.\<close>

definition CeedCompileHip_accepted ::
  "lib_env \<Rightarrow> hip_api \<Rightarrow> Ceed_Hip Ceed_s \<Rightarrow> (int \<times> nat option) outcome \<times> api_call list" where
  "CeedCompileHip_accepted env api ceed =
     after [HiprtcGetCodeSize]
       (case hiprtcGetCodeSize api of
          (r, ptxsize) \<Rightarrow>
            if r \<noteq> 0 then fail_with None (CeedError ceed r (chk_message env r))
            else
              after [PosixMemalign ptxsize]
                (then_run (FemeMallocArray (posix_memalign env ptxsize) ptxsize 1, [])
                   (\<lambda>ierr.
                      if ierr \<noteq> 0 then (Returns (ierr, None), [])
                      else
                        after [HiprtcGetCode]
                          (case hiprtcGetCode api of
                             (r, ptx) \<Rightarrow>
                               if r \<noteq> 0 then
                                 fail_with None (CeedError ceed r (chk_message env r))
                               else
                                 after [HiprtcDestroyProgram]
                                   (let r = hiprtcDestroyProgram api in
                                    if r \<noteq> 0 then
                                      fail_with None (CeedError ceed r (chk_message env r))
                                    else
                                      after [HipModuleLoadData ptx]
                                        (case hipModuleLoadData api ptx of
                                           (r, m) \<Rightarrow>
                                             if r \<noteq> 0 then
                                               fail_with None
                                                 (CeedError ceed r (chk_message env r))
                                             else
                                               after [Free] (Returns (0, Some m), [])))))))"

text \<open>
  \<^verbatim>\<open>CeedCompileHip\<close>, lines 31 to 59: the option array \<^verbatim>\<open>opts\<close>. The architecture text is
  used as the format of \<^verbatim>\<open>snprintf\<close>; it holds no conversion, being
  "--gpu-architecture=gfx" and the digits of a number.
\<close>

definition CeedCompileHip_opts :: "(string \<times> int) list \<Rightarrow> hipDeviceProp_t \<Rightarrow> string list" where
  "CeedCompileHip_opts options prop =
     (let buf = map (\<lambda>(name, val).
                  snprintf optslen (''-D'' @ name @ ''='' @ show_int val)) options;
          gfxName = ''gfx'' @ show_int (gcnArch prop);
          archArg = ''--gpu-architecture='' @ gfxName;
          buff = snprintf optslen archArg
      in buf @ [''-DCeedScalar=double'', ''-DCeedInt=int'', ''-default-device'', buff])"

text \<open>\<^verbatim>\<open>CeedCompileHip\<close>.\<close>

definition CeedCompileHip ::
  "lib_env \<Rightarrow> hip_api \<Rightarrow> Ceed_Hip Ceed_s \<Rightarrow> string \<Rightarrow> (string \<times> int) list \<Rightarrow>
   (int \<times> nat option) outcome \<times> api_call list" where
  "CeedCompileHip env api ceed source options =
     after [HipFree, HiprtcCreateProgram source]
       (let r = hiprtcCreateProgram api source in
        if r \<noteq> 0 then fail_with None (CeedError ceed r (chk_message env r))
        else
          let numopts = length options in
            (case backend_data ceed of
               None \<Rightarrow> (Fault, [])
             | Some ceed_data \<Rightarrow>
                 after [HipGetDeviceProperties (deviceId ceed_data)]
                   (case hipGetDeviceProperties api (deviceId ceed_data) of
                      (ierr, prop) \<Rightarrow>
                        if ierr \<noteq> 0 then
                          fail_with None (CeedError ceed ierr (chk_message env ierr))
                        else
                          let opts = CeedCompileHip_opts options prop;
                              result = hiprtcCompileProgram api source opts
                          in
                            after [HiprtcCompileProgram (numopts + optsextra) opts]
                              (if result \<noteq> 0 then
                                 CeedCompileHip_rejected env api ceed result
                               else CeedCompileHip_accepted env api ceed))))"

text \<open>The three launchers (\<open>kern\<close> is the argument \<^verbatim>\<open>kernel\<close>).\<close>

definition CeedRunKernelHip ::
  "lib_env \<Rightarrow> hip_api \<Rightarrow> 'd Ceed_s \<Rightarrow> nat \<Rightarrow> int \<Rightarrow> int \<Rightarrow> nat \<Rightarrow>
   int outcome \<times> api_call list" where
  "CeedRunKernelHip env api ceed kern gridSize blockSize args =
     (let l = \<lparr>func = kern,
                gridDimX = word_of_int gridSize, gridDimY = 1, gridDimZ = 1,
                blockDimX = word_of_int blockSize, blockDimY = 1, blockDimZ = 1,
                sharedMemBytes = 0, hStream = None, kernelParams = args, extra = None\<rparr>;
          r = hipModuleLaunchKernel api l
      in after [HipModuleLaunchKernel l]
           (if r \<noteq> 0 then (CeedError ceed r (chk_message env r), [])
            else (Returns 0, [])))"

definition CeedRunKernelDimHip ::
  "lib_env \<Rightarrow> hip_api \<Rightarrow> 'd Ceed_s \<Rightarrow> nat \<Rightarrow> int \<Rightarrow> int \<Rightarrow> int \<Rightarrow> int \<Rightarrow> nat \<Rightarrow>
   int outcome \<times> api_call list" where
  "CeedRunKernelDimHip env api ceed kern gridSize blockSizeX blockSizeY blockSizeZ args =
     (let l = \<lparr>func = kern,
                gridDimX = word_of_int gridSize, gridDimY = 1, gridDimZ = 1,
                blockDimX = word_of_int blockSizeX, blockDimY = word_of_int blockSizeY,
                blockDimZ = word_of_int blockSizeZ,
                sharedMemBytes = 0, hStream = None, kernelParams = args, extra = None\<rparr>;
          r = hipModuleLaunchKernel api l
      in after [HipModuleLaunchKernel l]
           (if r \<noteq> 0 then (CeedError ceed r (chk_message env r), [])
            else (Returns 0, [])))"

definition CeedRunKernelDimSharedHip ::
  "lib_env \<Rightarrow> hip_api \<Rightarrow> 'd Ceed_s \<Rightarrow> nat \<Rightarrow> int \<Rightarrow> int \<Rightarrow> int \<Rightarrow> int \<Rightarrow> int \<Rightarrow> nat \<Rightarrow>
   int outcome \<times> api_call list" where
  "CeedRunKernelDimSharedHip env api ceed kern gridSize blockSizeX blockSizeY blockSizeZ
       sharedMemSize args =
     (let l = \<lparr>func = kern,
                gridDimX = word_of_int gridSize, gridDimY = 1, gridDimZ = 1,
                blockDimX = word_of_int blockSizeX, blockDimY = word_of_int blockSizeY,
                blockDimZ = word_of_int blockSizeZ,
                sharedMemBytes = word_of_int sharedMemSize, hStream = None,
                kernelParams = args, extra = None\<rparr>;
          r = hipModuleLaunchKernel api l
      in after [HipModuleLaunchKernel l]
           (if r \<noteq> 0 then (CeedError ceed r (chk_message env r), [])
            else (Returns 0, [])))"

text \<open>\<^verbatim>\<open>CeedHipInit\<close>.\<close>

definition CeedHipInit ::
  "lib_env \<Rightarrow> hip_api \<Rightarrow> Ceed_Hip Ceed_s \<Rightarrow> string \<Rightarrow> nat \<Rightarrow>
   (int \<times> Ceed_Hip Ceed_s) outcome \<times> api_call list" where
  "CeedHipInit env api ceed resource nrc =
     (let rlen = length resource;
          slash = (if rlen > nrc then resource ! nrc = CHR ''/'' else False);
          deviceID = (if slash \<and> rlen > nrc + 1 then atoi (drop (nrc + 1) resource) else 0)
      in
        after [HipGetDevice]
          (case hipGetDevice api of
             (ierr, currentDeviceID) \<Rightarrow>
               if ierr \<noteq> 0 then fail_with ceed (CeedError ceed ierr (chk_message env ierr))
               else
                 let switch = (if currentDeviceID \<noteq> deviceID
                               then (hipSetDevice api deviceID, [HipSetDevice deviceID])
                               else (0, []))
                 in
                   after (snd switch)
                     (if fst switch \<noteq> 0 then
                        fail_with ceed
                          (CeedError ceed (fst switch) (chk_message env (fst switch)))
                      else
                        after [HipGetDeviceProperties deviceID]
                          (case hipGetDeviceProperties api deviceID of
                             (ierr, deviceProp) \<Rightarrow>
                               if ierr \<noteq> 0 then
                                 fail_with ceed
                                   (CeedError ceed ierr (chk_message env ierr))
                               else
                                 (case backend_data ceed of
                                    None \<Rightarrow> (Fault, [])
                                  | Some data \<Rightarrow>
                                      (Returns (0, ceed\<lparr>backend_data := Some
                                         (data\<lparr>deviceId := deviceID,
                                            optblocksize :=
                                              maxThreadsPerBlock deviceProp\<rparr>)\<rparr>),
                                       []))))))"

text \<open>
  \<^verbatim>\<open>CeedInit_Hip\<close>, the initializer the backend registers under "/gpu/hip/ref", and the
  operations it installs, in the order of the file.
\<close>

definition CeedInit_Hip_functions :: "(string \<times> string) list" where
  "CeedInit_Hip_functions =
     [(''GetPreferredMemType'', ''CeedGetPreferredMemType_Hip''),
      (''VectorCreate'', ''CeedVectorCreate_Hip''),
      (''BasisCreateTensorH1'', ''CeedBasisCreateTensorH1_Hip''),
      (''BasisCreateH1'', ''CeedBasisCreateH1_Hip''),
      (''ElemRestrictionCreate'', ''CeedElemRestrictionCreate_Hip''),
      (''ElemRestrictionCreateBlocked'', ''CeedElemRestrictionCreateBlocked_Hip''),
      (''QFunctionCreate'', ''CeedQFunctionCreate_Hip''),
      (''OperatorCreate'', ''CeedOperatorCreate_Hip'')]"

definition CeedInit_Hip ::
  "lib_env \<Rightarrow> hip_api \<Rightarrow> string \<Rightarrow> Ceed_Hip Ceed_s \<Rightarrow>
   (int \<times> Ceed_Hip Ceed_s) outcome \<times> api_call list" where
  "CeedInit_Hip env api resource ceed =
     (let nrc = 9 in
      if strncmp resource ''/gpu/hip/ref'' nrc \<noteq> 0 then
        fail_with ceed
          (CeedError ceed 1 (''Hip backend cannot use resource: '' @ resource))
      else
        after [Calloc]
          (then_run
             (FemeCallocArray (if calloc_fails env then None else Some 0) 1 8, [])
             (\<lambda>ierr.
                if ierr \<noteq> 0 then (Returns (ierr, ceed), [])
                else
                  then_run
                    (CeedHipInit env api
                       (ceed\<lparr>backend_data := Some \<lparr>deviceId = 0, optblocksize = 0\<rparr>\<rparr>)
                       resource nrc)
                    (\<lambda>(ierr, ceed1).
                       if ierr \<noteq> 0 then (Returns (ierr, ceed1), [])
                       else (set_backend_functions env CeedInit_Hip_functions ceed1, [])))))"

section \<open>The OCCA backend: src/backends/occa/registration.cpp\<close>

text \<open>
  What the OCCA library answers: whether a mode is enabled; the properties that
  \<^verbatim>\<open>::occa::properties(text)\<close> reads from a text (a map from keys to values), or the text of
  the exception it throws; the device \<^verbatim>\<open>::occa::device(properties)\<close> makes, or the text
  of the exception it throws. The backend's data \<^verbatim>\<open>ceed::occa::Context\<close> holds the device.
\<close>

record occa_api =
  modeIsEnabled :: "string \<Rightarrow> bool"
  occa_properties :: "string \<Rightarrow> string + (string \<rightharpoonup> string)"
  occa_device :: "(string \<rightharpoonup> string) \<Rightarrow> string + nat"

record occa_Context =
  device :: "nat option"

definition getDefaultDeviceMode :: "occa_api \<Rightarrow> bool \<Rightarrow> bool \<Rightarrow> string" where
  "getDefaultDeviceMode api cpuMode gpuMode =
     (if gpuMode \<and> modeIsEnabled api ''CUDA'' then ''CUDA''
      else if gpuMode \<and> modeIsEnabled api ''HIP'' then ''HIP''
      else if gpuMode \<and> modeIsEnabled api ''Metal'' then ''Metal''
      else if gpuMode \<and> modeIsEnabled api ''OpenCL'' then ''OpenCL''
      else if cpuMode then (if modeIsEnabled api ''OpenMP'' then ''OpenMP'' else ''Serial'')
      else [])"

text \<open>
  A C++ function of this file returns or throws; either way the context is left as the
  statements before have made it.
\<close>

datatype cxx_result = Returned int | Thrown string

text \<open>\<^verbatim>\<open>initCeed\<close>, lines 97 to 104: the device properties are settled.\<close>

definition initCeed_device ::
  "lib_env \<Rightarrow> occa_api \<Rightarrow> occa_Context Ceed_s \<Rightarrow> (string \<rightharpoonup> string) \<Rightarrow>
   (cxx_result \<times> occa_Context Ceed_s) outcome \<times> api_call list" where
  "initCeed_device env api ceed deviceProps =
     after [Calloc]
       (then_run (FemeCallocArray (if calloc_fails env then None else Some 0) 1 8, [])
          (\<lambda>ierr.
             if ierr \<noteq> 0 then (Returns (Returned ierr, ceed), [])
             else
               let ceed1 = ceed\<lparr>backend_data := Some \<lparr>device = None\<rparr>\<rparr> in
               after [OccaDevice (deviceProps ''mode'')]
                 (case occa_device api deviceProps of
                    Inl exc \<Rightarrow> (Returns (Thrown exc, ceed1), [])
                  | Inr dev \<Rightarrow>
                      (Returns (Returned 0,
                         ceed1\<lparr>backend_data := Some \<lparr>device = Some dev\<rparr>\<rparr>), []))))"

text \<open>\<^verbatim>\<open>initCeed\<close>.\<close>

definition initCeed ::
  "lib_env \<Rightarrow> occa_api \<Rightarrow> string \<Rightarrow> occa_Context Ceed_s \<Rightarrow>
   (cxx_result \<times> occa_Context Ceed_s) outcome \<times> api_call list" where
  "initCeed env api c_resource ceed =
     (let resource = c_resource;
          cpuMode = (str_find resource ''/cpu/occa'' \<noteq> None);
          gpuMode = (str_find resource ''/gpu/occa'' \<noteq> None);
          anyMode = (str_find resource ''/*/occa'' \<noteq> None);
          validResource0 = (cpuMode \<or> gpuMode \<or> anyMode);
          validResource =
            (if validResource0 \<and> length resource > 9 then resource ! 9 = CHR ''/''
             else validResource0);
          resourceProps =
            (if validResource0 \<and> length resource > 9 \<and> validResource
                \<and> length resource > 10
             then drop 10 resource else [])
      in
        if \<not> validResource then
          (map_outcome (\<lambda>e. (Returned e, ceed))
             (CeedError ceed 1 (''OCCA backend cannot use resource: '' @ c_resource)), [])
        else
          (case occa_properties api resourceProps of
             Inl exc \<Rightarrow> (Returns (Thrown exc, ceed), [])
           | Inr deviceProps \<Rightarrow>
               if deviceProps ''mode'' = None then
                 let defaultMode =
                       getDefaultDeviceMode api (cpuMode \<or> anyMode) (gpuMode \<or> anyMode)
                 in
                   if length defaultMode = 0 then
                     (map_outcome (\<lambda>e. (Returned e, ceed))
                        (CeedError ceed 1
                           (''No available OCCA mode for the given resource: ''
                              @ c_resource)), [])
                   else initCeed_device env api ceed (deviceProps(''mode'' \<mapsto> defaultMode))
               else initCeed_device env api ceed deviceProps))"

text \<open>
  \<^verbatim>\<open>registerMethods\<close>: the operations it installs, in the order of the file. The
  registrations between \<^verbatim>\<open>#if 0\<close> and \<^verbatim>\<open>#endif\<close> are not compiled.
\<close>

definition registerMethods_functions :: "(string \<times> string) list" where
  "registerMethods_functions =
     [(''GetPreferredMemType'', ''ceed::occa::getPreferredMemType''),
      (''VectorCreate'', ''ceed::occa::Vector::ceedCreate''),
      (''QFunctionCreate'', ''ceed::occa::QFunction::ceedCreate'')]"

definition registerMethods ::
  "lib_env \<Rightarrow> occa_Context Ceed_s \<Rightarrow> (int \<times> occa_Context Ceed_s) outcome" where
  "registerMethods env ceed = set_backend_functions env registerMethods_functions ceed"

text \<open>
  \<^verbatim>\<open>registerBackend\<close>, the initializer the backend registers under "/*/occa",
  "/gpu/occa" and "/cpu/occa". An exception of OCCA is caught and reported as error 1.
\<close>

definition registerBackend ::
  "lib_env \<Rightarrow> occa_api \<Rightarrow> string \<Rightarrow> occa_Context Ceed_s \<Rightarrow>
   (int \<times> occa_Context Ceed_s) outcome \<times> api_call list" where
  "registerBackend env api resource ceed =
     then_run (initCeed env api resource ceed)
       (\<lambda>(r, ceed1).
          case r of
            Thrown exc \<Rightarrow> fail_with ceed1 (CeedError ceed1 1 exc)
          | Returned ierr \<Rightarrow>
              if ierr \<noteq> 0 then (Returns (ierr, ceed1), [])
              else
                then_run (registerMethods env ceed1, [])
                  (\<lambda>(ierr, ceed2).
                     if ierr \<noteq> 0 then (Returns (ierr, ceed2), [])
                     else (Returns (0, ceed2), [])))"

text \<open>
  The operation names the specification lists as the minimum every backend provides.
\<close>

definition required_operations :: "string list" where
  "required_operations =
     [''GetPreferredMemType'', ''VectorCreate'', ''BasisCreateTensorH1'', ''BasisCreateH1'',
      ''ElemRestrictionCreate'', ''ElemRestrictionCreateBlocked'', ''QFunctionCreate'',
      ''QFunctionContextCreate'', ''OperatorCreate'', ''CompositeOperatorCreate'',
      ''Destroy'']"

section \<open>Example environments\<close>

text \<open>
  Closed values at which the theorems below are evaluated: a library in which allocation
  succeeds and every operation name is accepted; vendor libraries in which every call
  succeeds, except that the compilers reject the source text "bad" with result 6; an
  OCCA installation with the modes OpenMP and CUDA enabled, whose properties reader finds
  no key in any text; and contexts with a returning error handler and an empty table.
\<close>

definition example_env :: lib_env where
  "example_env =
     \<lparr>posix_memalign = (\<lambda>n. 0), calloc_fails = False, rejects = (\<lambda>s. False),
      chk_message = (\<lambda>r. ''vendor call failed'')\<rparr>"

definition example_cuda :: cuda_api where
  "example_cuda =
     \<lparr>nvrtcCreateProgram = (\<lambda>s. 0),
      nvrtcCompileProgram = (\<lambda>s os. if s = ''bad'' then 6 else 0),
      nvrtcGetProgramLogSize = (0, 9),
      nvrtcGetProgramLog = (0, ''error: x''),
      nvrtcGetPTXSize = (0, 4),
      nvrtcGetPTX = (0, ''ptx''),
      nvrtcDestroyProgram = 0,
      nvrtcGetErrorString = (\<lambda>r. ''NVRTC_ERROR_COMPILATION''),
      cuModuleLoadData = (\<lambda>p. (0, 77)),
      cuLaunchKernel = (\<lambda>l. 0),
      cudaGetDevice = (0, 0),
      cudaSetDevice = (\<lambda>d. 0),
      cudaGetDeviceProperties =
        (\<lambda>d. (0, \<lparr>major = 7, minor = 0, maxThreadsPerBlock = 1024\<rparr>))\<rparr>"

definition example_hip :: hip_api where
  "example_hip =
     \<lparr>hiprtcCreateProgram = (\<lambda>s. 0),
      hiprtcCompileProgram = (\<lambda>s os. if s = ''bad'' then 6 else 0),
      hiprtcGetProgramLogSize = (0, 9),
      hiprtcGetProgramLog = (0, ''error: x''),
      hiprtcGetCodeSize = (0, 4),
      hiprtcGetCode = (0, ''hsa''),
      hiprtcDestroyProgram = 0,
      hiprtcGetErrorString = (\<lambda>r. ''HIPRTC_ERROR_COMPILATION''),
      hipModuleLoadData = (\<lambda>p. (0, 78)),
      hipModuleLaunchKernel = (\<lambda>l. 0),
      hipGetDevice = (0, 0),
      hipSetDevice = (\<lambda>d. 0),
      hipGetDeviceProperties = (\<lambda>d. (0, \<lparr>gcnArch = 906, maxThreadsPerBlock = 1024\<rparr>))\<rparr>"

definition example_occa :: occa_api where
  "example_occa =
     \<lparr>modeIsEnabled = (\<lambda>m. m = ''OpenMP'' \<or> m = ''CUDA''),
      occa_properties = (\<lambda>s. Inr Map.empty),
      occa_device = (\<lambda>p. Inr 1)\<rparr>"

definition example_ceed_cuda :: "Ceed_Cuda Ceed_s" where
  "example_ceed_cuda =
     \<lparr>error_handler = Some ErrorReturn,
      backend_data = Some \<lparr>Ceed_Cuda.deviceId = 0, optblocksize = 1024, cublasHandle = None\<rparr>,
      dispatch_table = Map.empty\<rparr>"

definition example_ceed_hip :: "Ceed_Hip Ceed_s" where
  "example_ceed_hip =
     \<lparr>error_handler = Some ErrorReturn,
      backend_data = Some \<lparr>deviceId = 0, optblocksize = 1024\<rparr>,
      dispatch_table = Map.empty\<rparr>"

definition example_ceed_occa :: "occa_Context Ceed_s" where
  "example_ceed_occa =
     \<lparr>error_handler = Some ErrorReturn, backend_data = None, dispatch_table = Map.empty\<rparr>"

section \<open>Theorems on the core\<close>

subsection \<open>The common prefix\<close>

lemma common_len_take: "take (common_len p r) p = take (common_len p r) r"
  by (induction p r rule: common_len.induct) auto

lemma common_len_le: "common_len p r \<le> length p" "common_len p r \<le> length r"
  by (induction p r rule: common_len.induct) auto

lemma common_len_differs:
  "common_len p r < length p \<Longrightarrow> common_len p r < length r \<Longrightarrow>
   p ! common_len p r \<noteq> r ! common_len p r"
  by (induction p r rule: common_len.induct) auto

lemma common_len_leading: "common_len p r = length (common_leading p r)"
  by (induction p r rule: common_len.induct) (auto simp: common_leading_def)

lemma greatest_match_first_iff:
  "greatest_match_first bs r k \<longleftrightarrow>
     k < length bs \<and>
     (\<forall>j<length bs. common_len (prefix (bs ! j)) r \<le> common_len (prefix (bs ! k)) r) \<and>
     (\<forall>j<k. common_len (prefix (bs ! j)) r < common_len (prefix (bs ! k)) r)"
  by (auto simp: greatest_match_first_def common_len_leading list_all_iff)

subsection \<open>The selection loop\<close>

lemma FemeInit_loop_step:
  "length (prefix b) < N \<Longrightarrow>
   FemeInit_loop N (b # bs) r i (ml, mi) =
     FemeInit_loop N bs r (Suc i)
       (if common_len (prefix b) r > ml then (common_len (prefix b) r, Some i) else (ml, mi))"
  using common_len_le(1)[of "prefix b" r] by (simp add: scan_prefix_def Let_def)

lemma FemeInit_loop_selects:
  assumes "list_all (\<lambda>b. length (prefix b) < N) bs"
  shows "\<exists>ml' mi'. FemeInit_loop N bs r i (ml, mi) = Some (ml', mi') \<and>
    (if \<exists>b\<in>set bs. common_len (prefix b) r > ml
     then \<exists>k. greatest_match_first bs r k \<and> mi' = Some (i + k) \<and>
              ml' = common_len (prefix (bs ! k)) r \<and> ml' > ml
     else ml' = ml \<and> mi' = mi)"
  using assms
proof (induction bs arbitrary: i ml mi)
  case Nil
  then show ?case by simp
next
  case (Cons b bs)
  let ?n = "common_len (prefix b) r"
  from Cons.prems have tb: "length (prefix b) < N"
    and tbs: "list_all (\<lambda>b. length (prefix b) < N) bs" by auto
  show ?case
  proof (cases "?n > ml")
    case True
    from Cons.IH[OF tbs, of "Suc i" ?n "Some i"] obtain ml' mi' where
      run: "FemeInit_loop N bs r (Suc i) (?n, Some i) = Some (ml', mi')" and
      ch: "if \<exists>b\<in>set bs. common_len (prefix b) r > ?n
           then \<exists>k. greatest_match_first bs r k \<and> mi' = Some (Suc i + k) \<and>
                    ml' = common_len (prefix (bs ! k)) r \<and> ml' > ?n
           else ml' = ?n \<and> mi' = Some i" by blast
    have eq: "FemeInit_loop N (b # bs) r i (ml, mi) = Some (ml', mi')"
      using True run unfolding FemeInit_loop_step[OF tb] by simp
    show ?thesis
    proof (cases "\<exists>b\<in>set bs. common_len (prefix b) r > ?n")
      case T2: True
      with ch obtain k where k: "greatest_match_first bs r k" "mi' = Some (Suc i + k)"
        "ml' = common_len (prefix (bs ! k)) r" "ml' > ?n" by auto
      have "greatest_match_first (b # bs) r (Suc k)"
        using k unfolding greatest_match_first_iff
        by (auto simp: nth_Cons less_Suc_eq_0_disj split: nat.splits)
      then show ?thesis using eq k True
        by (intro exI[of _ ml'] exI[of _ mi']) (auto intro!: exI[of _ "Suc k"])
    next
      case F2: False
      with ch have r: "ml' = ?n" "mi' = Some i" by auto
      have "greatest_match_first (b # bs) r 0"
        using F2 unfolding greatest_match_first_iff
        by (auto simp: nth_Cons less_Suc_eq_0_disj not_less split: nat.splits)
      then show ?thesis using eq r True
        by (intro exI[of _ ml'] exI[of _ mi']) (auto intro!: exI[of _ 0])
    qed
  next
    case False
    from Cons.IH[OF tbs, of "Suc i" ml mi] obtain ml' mi' where
      run: "FemeInit_loop N bs r (Suc i) (ml, mi) = Some (ml', mi')" and
      ch: "if \<exists>b\<in>set bs. common_len (prefix b) r > ml
           then \<exists>k. greatest_match_first bs r k \<and> mi' = Some (Suc i + k) \<and>
                    ml' = common_len (prefix (bs ! k)) r \<and> ml' > ml
           else ml' = ml \<and> mi' = mi" by blast
    have eq: "FemeInit_loop N (b # bs) r i (ml, mi) = Some (ml', mi')"
      using False run unfolding FemeInit_loop_step[OF tb] by simp
    show ?thesis
    proof (cases "\<exists>b\<in>set bs. common_len (prefix b) r > ml")
      case T2: True
      with ch obtain k where k: "greatest_match_first bs r k" "mi' = Some (Suc i + k)"
        "ml' = common_len (prefix (bs ! k)) r" "ml' > ml" by auto
      have "greatest_match_first (b # bs) r (Suc k)"
        using k False unfolding greatest_match_first_iff
        by (auto simp: nth_Cons less_Suc_eq_0_disj split: nat.splits)
      then show ?thesis using eq k T2
        by (intro exI[of _ ml'] exI[of _ mi']) (auto intro!: exI[of _ "Suc k"])
    next
      case F2: False
      with ch have r: "ml' = ml" "mi' = mi" by auto
      then show ?thesis using eq F2 False by auto
    qed
  qed
qed

text \<open>
  C1. For a registry whose stored prefixes all have their terminator (each is shorter
  than the array), and every resource string: when some registered prefix shares a
  leading character with the resource, the loop of \<^verbatim>\<open>FemeInit\<close> selects the entry whose
  prefix shares the greatest-length common leading substring with the resource, the
  earliest-registered one among equals, and \<^verbatim>\<open>FemeInit\<close> (once the context is allocated)
  calls that entry's initializer, and no other, with the resource and the new context,
  whose error handler it has set to \<^verbatim>\<open>FemeErrorAbort\<close>; what the initializer returns is
  what \<^verbatim>\<open>FemeInit\<close> returns. When no registered prefix shares a leading character,
  \<^verbatim>\<open>FemeInit\<close> fails with error 1, "No suitable backend", reported without a context
  (so through \<^verbatim>\<open>FemeErrorAbort\<close>), and calls no initializer.
\<close>

theorem FemeInit_resolves:
  assumes "list_all (\<lambda>b. length (prefix b) < N) backends"
  shows "if \<exists>b\<in>set backends. common_leading (prefix b) resource \<noteq> [] then
           \<exists>k. greatest_match_first backends resource k \<and>
               FemeInit_loop N backends resource 0 (0, None) =
                 Some (length (common_leading (prefix (backends ! k)) resource), Some k) \<and>
               (\<forall>a. FemeInit N run backends (Some a) resource feme h =
                  (map_outcome (\<lambda>(ierr, h2). (ierr, Some a, h2))
                     (run (init (backends ! k)) resource a
                        (h(a \<mapsto> \<lparr>Error = Some ErrorAbort, Destroy = None\<rparr>))),
                   [InitCall (init (backends ! k)) resource a]))
         else FemeInit N run backends fresh resource feme h =
                (Aborts 1 ''No suitable backend'', [])"
proof -
  from FemeInit_loop_selects[OF assms, of resource 0 0 None] obtain ml' mi' where
    run: "FemeInit_loop N backends resource 0 (0, None) = Some (ml', mi')" and
    ch: "if \<exists>b\<in>set backends. common_len (prefix b) resource > 0
         then \<exists>k. greatest_match_first backends resource k \<and> mi' = Some (0 + k) \<and>
                  ml' = common_len (prefix (backends ! k)) resource \<and> ml' > 0
         else ml' = 0 \<and> mi' = None" by blast
  have cond: "(\<exists>b\<in>set backends. common_len (prefix b) resource > 0) =
              (\<exists>b\<in>set backends. common_leading (prefix b) resource \<noteq> [])"
    by (simp add: common_len_leading)
  show ?thesis
  proof (cases "\<exists>b\<in>set backends. common_leading (prefix b) resource \<noteq> []")
    case True
    with ch cond obtain k where k: "greatest_match_first backends resource k" "mi' = Some k"
      "ml' = common_len (prefix (backends ! k)) resource" "ml' > 0"
      by auto
    have "FemeInit N run backends (Some a) resource feme h =
            (map_outcome (\<lambda>(ierr, h2). (ierr, Some a, h2))
               (run (init (backends ! k)) resource a
                  (h(a \<mapsto> \<lparr>Error = Some ErrorAbort, Destroy = None\<rparr>))),
             [InitCall (init (backends ! k)) resource a])" for a
      using run k
      by (cases "run (init (backends ! k)) resource a
                   (h(a \<mapsto> \<lparr>Error = Some ErrorAbort, Destroy = None\<rparr>))")
         (auto simp: FemeInit_def then_run_def FemeCallocArray_def Let_def)
    then show ?thesis using True k run by (auto simp: common_len_leading)
  next
    case False
    with ch cond have "ml' = 0" by auto
    then show ?thesis using False run
      by (simp add: FemeInit_def FemeError_def FemeErrorImpl_def FemeErrorAbort_def)
  qed
qed

theorem FemeInit_resolves_witness:
  "list_all (\<lambda>b. length (prefix b) < 1024) example_backends \<and>
   (\<exists>b\<in>set example_backends. common_leading (prefix b) ''/gpu/hip'' \<noteq> []) \<and>
   (\<exists>k. greatest_match_first example_backends ''/gpu/hip'' k \<and>
        FemeInit_loop 1024 example_backends ''/gpu/hip'' 0 (0, None) =
          Some (length (common_leading (prefix (example_backends ! k)) ''/gpu/hip''), Some k) \<and>
        (\<forall>a. FemeInit 1024 (\<lambda>f r a h. Returns (0, h)) example_backends (Some a)
                ''/gpu/hip'' None Map.empty =
           (map_outcome (\<lambda>(ierr, h2). (ierr, Some a, h2))
              (Returns (0, Map.empty(a \<mapsto> \<lparr>Error = Some ErrorAbort, Destroy = None\<rparr>))),
            [InitCall (init (example_backends ! k)) ''/gpu/hip'' a]))) \<and>
   \<not> (\<exists>b\<in>set example_backends. common_leading (prefix b) ''unknown'' \<noteq> []) \<and>
   FemeInit 1024 (\<lambda>f r a h. Returns (0, h)) example_backends None ''unknown'' None Map.empty =
     (Aborts 1 ''No suitable backend'', [])"
proof -
  have t: "list_all (\<lambda>b. length (prefix b) < 1024) example_backends"
    by (simp add: example_backends_def)
  have c1: "\<exists>b\<in>set example_backends. common_leading (prefix b) ''/gpu/hip'' \<noteq> []"
    by (simp add: example_backends_def common_leading_def)
  have c2: "\<not> (\<exists>b\<in>set example_backends. common_leading (prefix b) ''unknown'' \<noteq> [])"
    by (simp add: example_backends_def common_leading_def)
  show ?thesis
    using t c1 c2
      FemeInit_resolves [OF t, where resource = "''/gpu/hip''"
        and run = "\<lambda>f r a h. Returns (0, h)" and feme = None and h = Map.empty]
      FemeInit_resolves [OF t, where resource = "''unknown''"
        and run = "\<lambda>f r a h. Returns (0, h)" and feme = None and h = Map.empty
        and fresh = None]
    by simp
qed

subsection \<open>Registration\<close>

text \<open>
  C3, as the code has it. \<^verbatim>\<open>FemeRegister\<close> appends an entry (the prefix cut to the array's
  size, and the initializer) and returns 0 whenever fewer than 32 entries are held. Once
  32 are held it writes nothing and reports error 1, "Too many backends", without a
  context: \<^verbatim>\<open>FemeErrorImpl\<close> then calls \<^verbatim>\<open>FemeErrorAbort\<close>, which prints the message and
  aborts the process, so the call does not return.
\<close>

theorem FemeRegister_capacity:
  "(length backends < 32 \<longrightarrow>
      FemeRegister N p f backends =
        Returns (0, backends @ [\<lparr>prefix = take N p, init = f\<rparr>])) \<and>
   (32 \<le> length backends \<longrightarrow>
      FemeRegister N p f backends = Aborts 1 ''Too many backends'')"
  by (simp add: FemeRegister_def FemeError_def FemeErrorImpl_def FemeErrorAbort_def)

theorem FemeRegister_capacity_witness:
  "length [\<lparr>prefix = ''/cpu/self'', init = ''CeedInit_Ref''\<rparr>] < 32 \<and>
   FemeRegister 1024 ''/gpu/cuda/ref'' ''CeedInit_Cuda''
     [\<lparr>prefix = ''/cpu/self'', init = ''CeedInit_Ref''\<rparr>] =
     Returns (0, [\<lparr>prefix = ''/cpu/self'', init = ''CeedInit_Ref''\<rparr>,
                  \<lparr>prefix = ''/gpu/cuda/ref'', init = ''CeedInit_Cuda''\<rparr>]) \<and>
   32 \<le> length (replicate 32 \<lparr>prefix = ''/cpu/self'', init = ''CeedInit_Ref''\<rparr>) \<and>
   FemeRegister 1024 ''/gpu/cuda/ref'' ''CeedInit_Cuda''
     (replicate 32 \<lparr>prefix = ''/cpu/self'', init = ''CeedInit_Ref''\<rparr>) =
     Aborts 1 ''Too many backends''"
  using
    FemeRegister_capacity [of "[\<lparr>prefix = ''/cpu/self'', init = ''CeedInit_Ref''\<rparr>]"
      1024 "''/gpu/cuda/ref''" "''CeedInit_Cuda''"]
    FemeRegister_capacity [of "replicate 32 \<lparr>prefix = ''/cpu/self'', init = ''CeedInit_Ref''\<rparr>"
      1024 "''/gpu/cuda/ref''" "''CeedInit_Cuda''"]
  by simp

text \<open>
  C3, as stated, fails: with 32 entries registered, the next registration does not
  return an error and leave a registry to resolve from; the process is aborted.
\<close>

theorem FemeRegister_overflow_aborts:
  "FemeRegister 1024 ''/cpu/self/extra'' ''CeedInit_Extra''
     (replicate 32 \<lparr>prefix = ''/cpu/self'', init = ''CeedInit_Ref''\<rparr>) =
     Aborts 1 ''Too many backends''"
  by (simp add: FemeRegister_def FemeError_def FemeErrorImpl_def FemeErrorAbort_def)

subsection \<open>Resolution reads the prefixes and the initializers only\<close>

lemma FemeInit_loop_cong:
  "map prefix bs = map prefix bs' \<Longrightarrow>
   FemeInit_loop N bs resource i acc = FemeInit_loop N bs' resource i acc"
proof (induction bs arbitrary: bs' i acc)
  case Nil
  then show ?case by simp
next
  case (Cons b bs)
  then obtain b' bs2 where e: "bs' = b' # bs2" "prefix b' = prefix b"
    "map prefix bs = map prefix bs2"
    by (cases bs') auto
  show ?case using Cons.IH[OF e(3)] e by (cases acc) (simp split: option.splits)
qed

lemma FemeInit_loop_idx:
  "FemeInit_loop N bs resource i (ml, mi) = Some (ml', Some k) \<Longrightarrow>
   mi = Some k \<or> (i \<le> k \<and> k < i + length bs)"
proof (induction bs arbitrary: i ml mi)
  case Nil
  then show ?case by simp
next
  case (Cons b bs)
  then show ?case by (fastforce split: option.splits if_splits)
qed

lemma FemeInit_cong:
  assumes "map prefix bs = map prefix bs'" "map init bs = map init bs'"
  shows "FemeInit N run bs fresh resource feme h = FemeInit N run bs' fresh resource feme h"
proof -
  have l: "FemeInit_loop N bs resource 0 (0, None) = FemeInit_loop N bs' resource 0 (0, None)"
    by (rule FemeInit_loop_cong[OF assms(1)])
  have len: "length bs = length bs'" using assms(1) by (metis length_map)
  have i: "init (bs ! k) = init (bs' ! k)" if "k < length bs" for k
    using that assms(2) len by (metis nth_map)
  show ?thesis
  proof (cases "FemeInit_loop N bs resource 0 (0, None)")
    case None
    then show ?thesis using l by (simp add: FemeInit_def)
  next
    case (Some a)
    obtain ml mi where a: "a = (ml, mi)" by (cases a)
    show ?thesis
    proof (cases mi)
      case None
      then show ?thesis using Some a l[symmetric]
        by (cases fresh)
          (simp_all add: FemeInit_def then_run_def FemeCallocArray_def FemeError_def
             FemeErrorImpl_def FemeErrorAbort_def)
    next
      case (Some k)
      with \<open>FemeInit_loop N bs resource 0 (0, None) = Some a\<close> a have "k < length bs"
        using FemeInit_loop_idx[of N bs resource 0 0 None ml k] by auto
      from i[OF this] show ?thesis
        using l[symmetric] Some a \<open>FemeInit_loop N bs resource 0 (0, None) = Some a\<close>
        by (cases fresh)
          (simp_all add: FemeInit_def then_run_def FemeCallocArray_def FemeError_def
             FemeErrorImpl_def FemeErrorAbort_def)
    qed
  qed
qed

lemma CeedRegister_all_fields:
  "CeedRegister_all N regs backends = Returns bs \<Longrightarrow>
   map prefix bs = map prefix backends @ map (\<lambda>(p, f, pr). take N p) regs \<and>
   map init bs = map init backends @ map (\<lambda>(p, f, pr). f) regs"
proof (induction regs arbitrary: backends)
  case Nil
  then show ?case by simp
next
  case (Cons x regs)
  obtain p f pr where x: "x = (p, f, pr)" by (cases x)
  from Cons.prems x
  have "CeedRegister_all N regs
          (backends @ [\<lparr>prefix = take N p, init = f, priority = pr\<rparr>]) = Returns bs"
    by (auto simp: CeedRegister_def FemeError_def FemeErrorImpl_def FemeErrorAbort_def
        split: if_splits)
  from Cons.IH[OF this] show ?case using x by simp
qed

text \<open>
  C7. Two registration sequences that give the same prefixes and initializers in the same
  order, whatever priorities they supply, build registries on which \<^verbatim>\<open>FemeInit\<close> behaves
  alike for every resource string: its loop ends with the same match length and the same
  index, and the call as a whole has the same outcome and makes the same calls. The
  loop and \<^verbatim>\<open>FemeInit\<close> read the prefix and the initializer of an entry and nothing else.
\<close>

theorem resolution_ignores_priority:
  assumes "map (\<lambda>(p, f, pr). (p, f)) regs = map (\<lambda>(p, f, pr). (p, f)) regs'"
    and "CeedRegister_all N regs [] = Returns bs"
    and "CeedRegister_all N regs' [] = Returns bs'"
  shows "FemeInit_loop N bs resource 0 (0, None) = FemeInit_loop N bs' resource 0 (0, None) \<and>
         FemeInit N run bs fresh resource feme h = FemeInit N run bs' fresh resource feme h"
proof -
  have "map ((\<lambda>(p, f). take N p) \<circ> (\<lambda>(p, f, pr). (p, f))) regs =
        map ((\<lambda>(p, f). take N p) \<circ> (\<lambda>(p, f, pr). (p, f))) regs'"
    using assms(1) by (metis map_map)
  then have p: "map (\<lambda>(p, f, pr). take N p) regs = map (\<lambda>(p, f, pr). take N p) regs'"
    by (simp add: comp_def case_prod_unfold)
  have "map (snd \<circ> (\<lambda>(p, f, pr). (p, f))) regs = map (snd \<circ> (\<lambda>(p, f, pr). (p, f))) regs'"
    using assms(1) by (metis map_map)
  then have f: "map (\<lambda>(p, f, pr). f) regs = map (\<lambda>(p, f, pr). f) regs'"
    by (simp add: comp_def case_prod_unfold)
  from CeedRegister_all_fields[OF assms(2)] CeedRegister_all_fields[OF assms(3)] p f
  have "map prefix bs = map prefix bs'" "map init bs = map init bs'" by simp_all
  then show ?thesis using FemeInit_loop_cong FemeInit_cong by blast
qed

theorem resolution_ignores_priority_witness:
  "map (\<lambda>(p, f, pr). (p, f))
     [(''/gpu/cuda/ref'', ''CeedInit_Cuda'', 40::nat), (''/gpu/hip/ref'', ''CeedInit_Hip'', 20)] =
   map (\<lambda>(p, f, pr). (p, f))
     [(''/gpu/cuda/ref'', ''CeedInit_Cuda'', 5::nat), (''/gpu/hip/ref'', ''CeedInit_Hip'', 70)] \<and>
   CeedRegister_all 1024
     [(''/gpu/cuda/ref'', ''CeedInit_Cuda'', 40), (''/gpu/hip/ref'', ''CeedInit_Hip'', 20)] [] =
     Returns [\<lparr>prefix = ''/gpu/cuda/ref'', init = ''CeedInit_Cuda'', priority = 40\<rparr>,
              \<lparr>prefix = ''/gpu/hip/ref'', init = ''CeedInit_Hip'', priority = 20\<rparr>] \<and>
   CeedRegister_all 1024
     [(''/gpu/cuda/ref'', ''CeedInit_Cuda'', 5), (''/gpu/hip/ref'', ''CeedInit_Hip'', 70)] [] =
     Returns [\<lparr>prefix = ''/gpu/cuda/ref'', init = ''CeedInit_Cuda'', priority = 5\<rparr>,
              \<lparr>prefix = ''/gpu/hip/ref'', init = ''CeedInit_Hip'', priority = 70\<rparr>] \<and>
   FemeInit_loop 1024
     [\<lparr>prefix = ''/gpu/cuda/ref'', init = ''CeedInit_Cuda'', priority = 40\<rparr>,
      \<lparr>prefix = ''/gpu/hip/ref'', init = ''CeedInit_Hip'', priority = 20\<rparr>]
     ''/gpu/'' 0 (0, None) =
   FemeInit_loop 1024
     [\<lparr>prefix = ''/gpu/cuda/ref'', init = ''CeedInit_Cuda'', priority = 5\<rparr>,
      \<lparr>prefix = ''/gpu/hip/ref'', init = ''CeedInit_Hip'', priority = 70\<rparr>]
     ''/gpu/'' 0 (0, None) \<and>
   FemeInit 1024 (\<lambda>f r a h. Returns (0, h))
     [\<lparr>prefix = ''/gpu/cuda/ref'', init = ''CeedInit_Cuda'', priority = 40\<rparr>,
      \<lparr>prefix = ''/gpu/hip/ref'', init = ''CeedInit_Hip'', priority = 20\<rparr>]
     (Some 3) ''/gpu/'' None Map.empty =
   FemeInit 1024 (\<lambda>f r a h. Returns (0, h))
     [\<lparr>prefix = ''/gpu/cuda/ref'', init = ''CeedInit_Cuda'', priority = 5\<rparr>,
      \<lparr>prefix = ''/gpu/hip/ref'', init = ''CeedInit_Hip'', priority = 70\<rparr>]
     (Some 3) ''/gpu/'' None Map.empty"
proof -
  have a: "map (\<lambda>(p, f, pr). (p, f))
     [(''/gpu/cuda/ref'', ''CeedInit_Cuda'', 40::nat), (''/gpu/hip/ref'', ''CeedInit_Hip'', 20)] =
   map (\<lambda>(p, f, pr). (p, f))
     [(''/gpu/cuda/ref'', ''CeedInit_Cuda'', 5::nat), (''/gpu/hip/ref'', ''CeedInit_Hip'', 70)]"
    by simp
  have b: "CeedRegister_all 1024
     [(''/gpu/cuda/ref'', ''CeedInit_Cuda'', 40), (''/gpu/hip/ref'', ''CeedInit_Hip'', 20)] [] =
     Returns [\<lparr>prefix = ''/gpu/cuda/ref'', init = ''CeedInit_Cuda'', priority = 40\<rparr>,
              \<lparr>prefix = ''/gpu/hip/ref'', init = ''CeedInit_Hip'', priority = 20\<rparr>]"
    by (simp add: CeedRegister_def)
  have c: "CeedRegister_all 1024
     [(''/gpu/cuda/ref'', ''CeedInit_Cuda'', 5), (''/gpu/hip/ref'', ''CeedInit_Hip'', 70)] [] =
     Returns [\<lparr>prefix = ''/gpu/cuda/ref'', init = ''CeedInit_Cuda'', priority = 5\<rparr>,
              \<lparr>prefix = ''/gpu/hip/ref'', init = ''CeedInit_Hip'', priority = 70\<rparr>]"
    by (simp add: CeedRegister_def)
  from resolution_ignores_priority [OF a b c, where resource = "''/gpu/''"
      and run = "\<lambda>f r a h. Returns (0, h)" and fresh = "Some 3" and feme = None
      and h = Map.empty]
  show ?thesis using a b c by blast
qed

subsection \<open>Destruction\<close>

text \<open>
  C9. \<^verbatim>\<open>FemeDestroy\<close> on a variable that holds the null pointer returns 0, leaves the
  variable and the heap as they are and calls no backend function. Whenever
  \<^verbatim>\<open>FemeDestroy\<close> returns 0, the caller's variable holds the null pointer afterwards and
  the context it pointed to is no longer allocated, so that \<^verbatim>\<open>FemeDestroy\<close> called again
  on the same variable returns 0, changes nothing and calls nothing.
\<close>

theorem FemeDestroy_null_safe_idempotent:
  "FemeDestroy run None h = (Returns (0, None, h), []) \<and>
   (FemeDestroy run feme h = (Returns (0, feme', h'), tr) \<longrightarrow>
      feme' = None \<and> (\<forall>a. feme = Some a \<longrightarrow> h' a = None) \<and>
      FemeDestroy run feme' h' = (Returns (0, None, h'), []))"
proof -
  have n: "FemeDestroy run None h0 = (Returns (0, None, h0), [])" for h0
    by (simp add: FemeDestroy_def)
  have s: "feme' = None \<and> (\<forall>a. feme = Some a \<longrightarrow> h' a = None)"
    if "FemeDestroy run feme h = (Returns (0, feme', h'), tr)"
    using that
    by (auto simp: FemeDestroy_def then_run_def FemeFree_def
        split: option.splits outcome.splits prod.splits if_splits)
  show ?thesis using n s by auto
qed

theorem FemeDestroy_null_safe_idempotent_witness:
  "FemeDestroy (\<lambda>f a h. Returns (0, h)) (Some 4)
     (Map.empty(4 \<mapsto> \<lparr>Error = Some ErrorAbort, Destroy = Some ''CeedDestroy_Cuda''\<rparr>)) =
     (Returns (0, None, Map.empty), [DestroyCall ''CeedDestroy_Cuda'' 4]) \<and>
   FemeDestroy (\<lambda>f a h. Returns (0, h)) None
     (Map.empty :: string heap) = (Returns (0, None, Map.empty), [])"
proof -
  have d: "FemeDestroy (\<lambda>f a h. Returns (0, h)) (Some 4)
     (Map.empty(4 \<mapsto> \<lparr>Error = Some ErrorAbort, Destroy = Some ''CeedDestroy_Cuda''\<rparr>)) =
     (Returns (0, None, Map.empty), [DestroyCall ''CeedDestroy_Cuda'' 4])"
    by (simp add: FemeDestroy_def then_run_def FemeFree_def)
  from FemeDestroy_null_safe_idempotent [where run = "\<lambda>f a h. Returns (0, h)"
      and feme = "Some 4" and feme' = None and h' = Map.empty
      and tr = "[DestroyCall ''CeedDestroy_Cuda'' 4]"
      and h = "Map.empty(4 \<mapsto> \<lparr>Error = Some ErrorAbort, Destroy = Some ''CeedDestroy_Cuda''\<rparr>)"]
  show ?thesis using d by simp
qed

section \<open>Theorems on the backends\<close>

subsection \<open>The operations an initializer installs\<close>

lemma set_backend_functions_table:
  "set_backend_functions env fs ceed = Returns (0, ceed') \<Longrightarrow>
   dispatch_table ceed' = dispatch_table ceed ++ map_of (rev fs) \<and>
   backend_data ceed' = backend_data ceed \<and> error_handler ceed' = error_handler ceed"
proof (induction fs arbitrary: ceed)
  case Nil
  then show ?case by simp
next
  case (Cons x fs)
  obtain fname f where x: "x = (fname, f)" by (cases x)
  let ?c = "ceed\<lparr>dispatch_table := (dispatch_table ceed)(fname \<mapsto> f)\<rparr>"
  from Cons.prems x have nr: "\<not> rejects env fname"
    and r: "set_backend_functions env fs ?c = Returns (0, ceed')"
    by (auto simp: CeedSetBackendFunction_def CeedError_def FemeErrorReturn_def
        FemeErrorAbort_def split: if_splits option.splits errhandler.splits outcome.splits)
  from Cons.IH[OF r] show ?case using x
    by (auto simp: map_add_def fun_eq_iff split: option.splits)
qed

lemma CeedCudaInit_table:
  "CeedCudaInit env api ceed resource nrc = (Returns (0, ceed'), tr) \<Longrightarrow>
   dispatch_table ceed' = dispatch_table ceed"
  by (auto simp: CeedCudaInit_def after_def fail_with_def Let_def CeedError_def
      FemeErrorReturn_def FemeErrorAbort_def
      split: prod.splits if_splits option.splits errhandler.splits)

lemma CeedHipInit_table:
  "CeedHipInit env api ceed resource nrc = (Returns (0, ceed'), tr) \<Longrightarrow>
   dispatch_table ceed' = dispatch_table ceed"
  by (auto simp: CeedHipInit_def after_def fail_with_def Let_def CeedError_def
      FemeErrorReturn_def FemeErrorAbort_def
      split: prod.splits if_splits option.splits errhandler.splits)

lemma CeedInit_Cuda_table:
  assumes "CeedInit_Cuda env api resource ceed = (Returns (0, ceed'), tr)"
  shows "dispatch_table ceed' = dispatch_table ceed ++ map_of (rev CeedInit_Cuda_functions)"
proof -
  let ?c0 = "ceed\<lparr>backend_data := Some \<lparr>Ceed_Cuda.deviceId = 0, optblocksize = 0, cublasHandle = None\<rparr>\<rparr>"
  obtain r1 t1 where i: "CeedCudaInit env api ?c0 resource 9 = (r1, t1)" by (cases "CeedCudaInit env api ?c0 resource 9")
  from assms i obtain ceed1 where
    c1: "r1 = Returns (0, ceed1)" and
    s: "set_backend_functions env CeedInit_Cuda_functions ceed1 = Returns (0, ceed')"
    by (cases r1)
      (auto simp: CeedInit_Cuda_def Let_def after_def fail_with_def then_run_def
        FemeCallocArray_def FemeError_def FemeErrorImpl_def FemeErrorAbort_def
        CeedError_def FemeErrorReturn_def
        split: if_splits option.splits errhandler.splits prod.splits outcome.splits)
  from CeedCudaInit_table[of env api ?c0 resource 9 ceed1 t1] i c1
  have "dispatch_table ceed1 = dispatch_table ceed" by simp
  with set_backend_functions_table[OF s] show ?thesis by simp
qed

lemma CeedInit_Hip_table:
  assumes "CeedInit_Hip env api resource ceed = (Returns (0, ceed'), tr)"
  shows "dispatch_table ceed' = dispatch_table ceed ++ map_of (rev CeedInit_Hip_functions)"
proof -
  let ?c0 = "ceed\<lparr>backend_data := Some \<lparr>deviceId = 0, optblocksize = 0\<rparr>\<rparr>"
  obtain r1 t1 where i: "CeedHipInit env api ?c0 resource 9 = (r1, t1)" by (cases "CeedHipInit env api ?c0 resource 9")
  from assms i obtain ceed1 where
    c1: "r1 = Returns (0, ceed1)" and
    s: "set_backend_functions env CeedInit_Hip_functions ceed1 = Returns (0, ceed')"
    by (cases r1)
      (auto simp: CeedInit_Hip_def Let_def after_def fail_with_def then_run_def
        FemeCallocArray_def FemeError_def FemeErrorImpl_def FemeErrorAbort_def
        CeedError_def FemeErrorReturn_def
        split: if_splits option.splits errhandler.splits prod.splits outcome.splits)
  from CeedHipInit_table[of env api ?c0 resource 9 ceed1 t1] i c1
  have "dispatch_table ceed1 = dispatch_table ceed" by simp
  with set_backend_functions_table[OF s] show ?thesis by simp
qed

lemma initCeed_device_table:
  "initCeed_device env api ceed props = (Returns (r, ceed1), tr) \<Longrightarrow>
   dispatch_table ceed1 = dispatch_table ceed \<and> error_handler ceed1 = error_handler ceed"
  by (auto simp: initCeed_device_def after_def then_run_def FemeCallocArray_def FemeError_def
      FemeErrorImpl_def FemeErrorAbort_def Let_def
      split: if_splits sum.splits)

lemma initCeed_table:
  "initCeed env api resource ceed = (Returns (r, ceed1), tr) \<Longrightarrow>
   dispatch_table ceed1 = dispatch_table ceed \<and> error_handler ceed1 = error_handler ceed"
  by (auto simp: initCeed_def Let_def CeedError_def FemeErrorReturn_def FemeErrorAbort_def
      dest: initCeed_device_table
      split: if_splits sum.splits option.splits errhandler.splits)

lemma registerBackend_table:
  assumes "registerBackend env api resource ceed = (Returns (0, ceed'), tr)"
  shows "dispatch_table ceed' = dispatch_table ceed ++ map_of (rev registerMethods_functions)"
proof -
  obtain r1 t1 where i: "initCeed env api resource ceed = (r1, t1)" by (cases "initCeed env api resource ceed")
  from assms i obtain ceed1 where
    c1: "r1 = Returns (Returned 0, ceed1)" and
    s: "set_backend_functions env registerMethods_functions ceed1 = Returns (0, ceed')"
    by (cases r1)
      (auto simp: registerBackend_def registerMethods_def then_run_def fail_with_def
        CeedError_def FemeErrorReturn_def FemeErrorAbort_def
        split: if_splits option.splits errhandler.splits prod.splits outcome.splits
          cxx_result.splits)
  from initCeed_table[of env api resource ceed "Returned 0" ceed1 t1] i c1
  have "dispatch_table ceed1 = dispatch_table ceed" by simp
  with set_backend_functions_table[OF s] show ?thesis by simp
qed

lemmas run_defs = then_run_def after_def fail_with_def FemeCallocArray_def Let_def
  CeedSetBackendFunction_def

lemma cuda_init_example:
  "CeedInit_Cuda example_env example_cuda ''/gpu/cuda/ref'' example_ceed_cuda =
     (Returns (0,
        \<lparr>error_handler = Some ErrorReturn,
         backend_data = Some \<lparr>Ceed_Cuda.deviceId = 0, optblocksize = 1024, cublasHandle = None\<rparr>,
         dispatch_table = Map.empty ++ map_of (rev CeedInit_Cuda_functions)\<rparr>),
      [Calloc, CudaGetDevice, CudaGetDeviceProperties 0])"
  by (simp add: CeedInit_Cuda_def CeedCudaInit_def CeedInit_Cuda_functions_def
      example_env_def example_cuda_def example_ceed_cuda_def run_defs eval_nat_numeral
      atoi_def isspace_def isdigit_def fun_eq_iff map_add_def)

lemma hip_init_example:
  "CeedInit_Hip example_env example_hip ''/gpu/hip/ref'' example_ceed_hip =
     (Returns (0,
        \<lparr>error_handler = Some ErrorReturn,
         backend_data = Some \<lparr>deviceId = 0, optblocksize = 1024\<rparr>,
         dispatch_table = Map.empty ++ map_of (rev CeedInit_Hip_functions)\<rparr>),
      [Calloc, HipGetDevice, HipGetDeviceProperties 0])"
  by (simp add: CeedInit_Hip_def CeedHipInit_def CeedInit_Hip_functions_def
      example_env_def example_hip_def example_ceed_hip_def run_defs eval_nat_numeral
      atoi_def isspace_def isdigit_def fun_eq_iff map_add_def)

lemma occa_init_example:
  "registerBackend example_env example_occa ''/cpu/occa'' example_ceed_occa =
     (Returns (0,
        \<lparr>error_handler = Some ErrorReturn,
         backend_data = Some \<lparr>device = Some 1\<rparr>,
         dispatch_table = Map.empty ++ map_of (rev registerMethods_functions)\<rparr>),
      [Calloc, OccaDevice (Some ''OpenMP'')])"
  by (simp add: registerBackend_def initCeed_def initCeed_device_def registerMethods_def
      registerMethods_functions_def example_env_def example_occa_def
      example_ceed_occa_def getDefaultDeviceMode_def run_defs fun_eq_iff map_add_def)

text \<open>
  C6, as the code has it. When an initializer returns 0, the dispatch table of the context
  is the table it was given, overridden by the operations the initializer installs.
  \<^verbatim>\<open>CeedInit_Cuda\<close> installs each of the eleven required operation names.
  \<^verbatim>\<open>CeedInit_Hip\<close> installs eight of them: GetPreferredMemType, VectorCreate,
  BasisCreateTensorH1, BasisCreateH1, ElemRestrictionCreate, ElemRestrictionCreateBlocked,
  QFunctionCreate and OperatorCreate. The OCCA initializer \<^verbatim>\<open>registerBackend\<close> installs
  three, GetPreferredMemType, VectorCreate and QFunctionCreate, and leaves the entry of
  each of the eight other required names as it found it.
\<close>

theorem initializers_install:
  "(CeedInit_Cuda env capi resource ceedc = (Returns (0, ceedc'), trc) \<longrightarrow>
      dispatch_table ceedc' = dispatch_table ceedc ++ map_of (rev CeedInit_Cuda_functions) \<and>
      list_all (\<lambda>n. dispatch_table ceedc' n \<noteq> None) required_operations) \<and>
   (CeedInit_Hip env hapi resource ceedh = (Returns (0, ceedh'), trh) \<longrightarrow>
      dispatch_table ceedh' = dispatch_table ceedh ++ map_of (rev CeedInit_Hip_functions) \<and>
      list_all (\<lambda>n. dispatch_table ceedh' n \<noteq> None)
        [''GetPreferredMemType'', ''VectorCreate'', ''BasisCreateTensorH1'', ''BasisCreateH1'',
         ''ElemRestrictionCreate'', ''ElemRestrictionCreateBlocked'', ''QFunctionCreate'',
         ''OperatorCreate'']) \<and>
   (registerBackend env oapi resource ceedo = (Returns (0, ceedo'), tro) \<longrightarrow>
      dispatch_table ceedo' = dispatch_table ceedo ++ map_of (rev registerMethods_functions) \<and>
      list_all (\<lambda>n. dispatch_table ceedo' n \<noteq> None)
        [''GetPreferredMemType'', ''VectorCreate'', ''QFunctionCreate''] \<and>
      list_all (\<lambda>n. dispatch_table ceedo' n = dispatch_table ceedo n)
        [''BasisCreateTensorH1'', ''BasisCreateH1'', ''ElemRestrictionCreate'',
         ''ElemRestrictionCreateBlocked'', ''QFunctionContextCreate'', ''OperatorCreate'',
         ''CompositeOperatorCreate'', ''Destroy''])"
proof (intro conjI impI)
  assume a: "CeedInit_Cuda env capi resource ceedc = (Returns (0, ceedc'), trc)"
  show t: "dispatch_table ceedc' = dispatch_table ceedc ++ map_of (rev CeedInit_Cuda_functions)"
    by (rule CeedInit_Cuda_table[OF a])
  show "list_all (\<lambda>n. dispatch_table ceedc' n \<noteq> None) required_operations"
    unfolding t by (simp add: required_operations_def CeedInit_Cuda_functions_def)
next
  assume a: "CeedInit_Hip env hapi resource ceedh = (Returns (0, ceedh'), trh)"
  show t: "dispatch_table ceedh' = dispatch_table ceedh ++ map_of (rev CeedInit_Hip_functions)"
    by (rule CeedInit_Hip_table[OF a])
  show "list_all (\<lambda>n. dispatch_table ceedh' n \<noteq> None)
        [''GetPreferredMemType'', ''VectorCreate'', ''BasisCreateTensorH1'', ''BasisCreateH1'',
         ''ElemRestrictionCreate'', ''ElemRestrictionCreateBlocked'', ''QFunctionCreate'',
         ''OperatorCreate'']"
    unfolding t by (simp add: CeedInit_Hip_functions_def)
next
  assume a: "registerBackend env oapi resource ceedo = (Returns (0, ceedo'), tro)"
  show t: "dispatch_table ceedo' = dispatch_table ceedo ++ map_of (rev registerMethods_functions)"
    by (rule registerBackend_table[OF a])
  show "list_all (\<lambda>n. dispatch_table ceedo' n \<noteq> None)
        [''GetPreferredMemType'', ''VectorCreate'', ''QFunctionCreate'']"
    unfolding t by (simp add: registerMethods_functions_def)
  show "list_all (\<lambda>n. dispatch_table ceedo' n = dispatch_table ceedo n)
        [''BasisCreateTensorH1'', ''BasisCreateH1'', ''ElemRestrictionCreate'',
         ''ElemRestrictionCreateBlocked'', ''QFunctionContextCreate'', ''OperatorCreate'',
         ''CompositeOperatorCreate'', ''Destroy'']"
    unfolding t by (simp add: registerMethods_functions_def map_add_def)
qed

theorem initializers_install_witness:
  "CeedInit_Cuda example_env example_cuda ''/gpu/cuda/ref'' example_ceed_cuda =
     (Returns (0,
        \<lparr>error_handler = Some ErrorReturn,
         backend_data = Some \<lparr>Ceed_Cuda.deviceId = 0, optblocksize = 1024, cublasHandle = None\<rparr>,
         dispatch_table = Map.empty ++ map_of (rev CeedInit_Cuda_functions)\<rparr>),
      [Calloc, CudaGetDevice, CudaGetDeviceProperties 0]) \<and>
   list_all (\<lambda>n. (Map.empty ++ map_of (rev CeedInit_Cuda_functions)) n \<noteq> None)
     required_operations \<and>
   CeedInit_Hip example_env example_hip ''/gpu/hip/ref'' example_ceed_hip =
     (Returns (0,
        \<lparr>error_handler = Some ErrorReturn,
         backend_data = Some \<lparr>deviceId = 0, optblocksize = 1024\<rparr>,
         dispatch_table = Map.empty ++ map_of (rev CeedInit_Hip_functions)\<rparr>),
      [Calloc, HipGetDevice, HipGetDeviceProperties 0]) \<and>
   (Map.empty ++ map_of (rev CeedInit_Hip_functions)) ''OperatorCreate'' \<noteq> None \<and>
   registerBackend example_env example_occa ''/cpu/occa'' example_ceed_occa =
     (Returns (0,
        \<lparr>error_handler = Some ErrorReturn,
         backend_data = Some \<lparr>device = Some 1\<rparr>,
         dispatch_table = Map.empty ++ map_of (rev registerMethods_functions)\<rparr>),
      [Calloc, OccaDevice (Some ''OpenMP'')]) \<and>
   (Map.empty ++ map_of (rev registerMethods_functions)) ''QFunctionCreate'' \<noteq> None \<and>
   (Map.empty ++ map_of (rev registerMethods_functions)) ''Destroy'' = None"
proof -
  have c: "list_all (\<lambda>n. (Map.empty ++ map_of (rev CeedInit_Cuda_functions)) n \<noteq> None)
             required_operations"
    using cuda_init_example
      initializers_install [where env = example_env and capi = example_cuda
        and resource = "''/gpu/cuda/ref''" and ceedc = example_ceed_cuda
        and trc = "[Calloc, CudaGetDevice, CudaGetDeviceProperties 0]"
        and ceedc' = "\<lparr>error_handler = Some ErrorReturn,
           backend_data = Some \<lparr>Ceed_Cuda.deviceId = 0, optblocksize = 1024,
             cublasHandle = None\<rparr>,
           dispatch_table = Map.empty ++ map_of (rev CeedInit_Cuda_functions)\<rparr>"]
    by simp
  have h: "(Map.empty ++ map_of (rev CeedInit_Hip_functions)) ''OperatorCreate'' \<noteq> None"
    using hip_init_example
      initializers_install [where env = example_env and hapi = example_hip
        and resource = "''/gpu/hip/ref''" and ceedh = example_ceed_hip
        and trh = "[Calloc, HipGetDevice, HipGetDeviceProperties 0]"
        and ceedh' = "\<lparr>error_handler = Some ErrorReturn,
           backend_data = Some \<lparr>deviceId = 0, optblocksize = 1024\<rparr>,
           dispatch_table = Map.empty ++ map_of (rev CeedInit_Hip_functions)\<rparr>"]
    by simp
  have o: "(Map.empty ++ map_of (rev registerMethods_functions)) ''QFunctionCreate'' \<noteq> None \<and>
           (Map.empty ++ map_of (rev registerMethods_functions)) ''Destroy'' = None"
    using occa_init_example
      initializers_install [where env = example_env and oapi = example_occa
        and resource = "''/cpu/occa''" and ceedo = example_ceed_occa
        and tro = "[Calloc, OccaDevice (Some ''OpenMP'')]"
        and ceedo' = "\<lparr>error_handler = Some ErrorReturn,
           backend_data = Some \<lparr>device = Some 1\<rparr>,
           dispatch_table = Map.empty ++ map_of (rev registerMethods_functions)\<rparr>"]
    by (simp add: example_ceed_occa_def)
  show ?thesis
    using c h o cuda_init_example hip_init_example occa_init_example by blast
qed

text \<open>
  C6, as stated, fails: the OCCA initializer succeeds on "/cpu/occa" with a context whose
  table was empty, and of the required names only three have an entry afterwards (the
  list gives the entry of each required name, in the order of \<open>required_operations\<close>).
\<close>

theorem occa_installs_three:
  "map_outcome (\<lambda>(ierr, c). (ierr, map (dispatch_table c) required_operations))
     (fst (registerBackend example_env example_occa ''/cpu/occa'' example_ceed_occa)) =
   Returns (0, [Some ''ceed::occa::getPreferredMemType'',
                Some ''ceed::occa::Vector::ceedCreate'', None, None, None, None,
                Some ''ceed::occa::QFunction::ceedCreate'', None, None, None, None])"
  by (simp add: registerBackend_def initCeed_def initCeed_device_def registerMethods_def
      registerMethods_functions_def required_operations_def example_env_def example_occa_def
      example_ceed_occa_def getDefaultDeviceMode_def CeedSetBackendFunction_def
      then_run_def after_def fail_with_def FemeCallocArray_def Let_def)

subsection \<open>The device ordinal\<close>

text \<open>
  C2, evaluated. With the registrations "/gpu/cuda/ref", "/gpu/hip/ref" and "/cpu/occa",
  the loop of \<^verbatim>\<open>FemeInit\<close> selects entry 0, "/gpu/cuda/ref", for the resource
  "/gpu/cuda/ref/2", with match length 13. \<^verbatim>\<open>CeedInit_Cuda\<close> then passes \<^verbatim>\<open>nrc = 9\<close> to
  \<^verbatim>\<open>CeedCudaInit\<close>, which reads the ordinal after the tenth character: for
  "/gpu/cuda/ref/2" that is \<^verbatim>\<open>atoi("ref/2")\<close>, and the device ordinal stored is 0, not 2.
  The ordinal 2 is stored for "/gpu/cuda/2". \<^verbatim>\<open>CeedInit_Hip\<close>, with the same \<^verbatim>\<open>nrc\<close>,
  stores 0 for "/gpu/hip/ref/2" as well.
\<close>

theorem CeedInit_Cuda_ordinal_after_nine:
  "map_outcome (\<lambda>(ierr, c). (ierr, map_option Ceed_Cuda.deviceId (backend_data c)))
     (fst (CeedInit_Cuda example_env example_cuda ''/gpu/cuda/ref/2'' example_ceed_cuda)) =
     Returns (0, Some 0) \<and>
   map_outcome (\<lambda>(ierr, c). (ierr, map_option Ceed_Cuda.deviceId (backend_data c)))
     (fst (CeedInit_Cuda example_env example_cuda ''/gpu/cuda/2'' example_ceed_cuda)) =
     Returns (0, Some 2) \<and>
   map_outcome (\<lambda>(ierr, c). (ierr, map_option Ceed_Hip.deviceId (backend_data c)))
     (fst (CeedInit_Hip example_env example_hip ''/gpu/hip/ref/2'' example_ceed_hip)) =
     Returns (0, Some 0) \<and>
   FemeInit_loop 1024 example_backends ''/gpu/cuda/ref/2'' 0 (0, None) = Some (13, Some 0)"
  by (simp add: CeedInit_Cuda_def CeedCudaInit_def CeedInit_Cuda_functions_def
      CeedInit_Hip_def CeedHipInit_def CeedInit_Hip_functions_def
      example_env_def example_cuda_def example_ceed_cuda_def example_hip_def
      example_ceed_hip_def run_defs eval_nat_numeral
      atoi_def isspace_def isdigit_def example_backends_def scan_prefix_def)

subsection \<open>The options passed to the runtime compiler\<close>

lemma CeedCompileCuda_rejected_calls:
  "set (snd (CeedCompileCuda_rejected env api ceed result))
     \<subseteq> insert NvrtcGetProgramLogSize (insert NvrtcGetProgramLog (range PosixMemalign))"
  by (auto simp: CeedCompileCuda_rejected_def after_def then_run_def fail_with_def
      split: prod.splits if_splits outcome.splits)

lemma CeedCompileCuda_accepted_calls:
  "NvrtcCompileProgram n opts \<notin> set (snd (CeedCompileCuda_accepted env api ceed))"
  by (auto simp: CeedCompileCuda_accepted_def after_def then_run_def fail_with_def Let_def
      split: prod.splits if_splits outcome.splits)

lemma CeedCompileHip_rejected_calls:
  "HiprtcCompileProgram n opts \<notin> set (snd (CeedCompileHip_rejected env api ceed result))"
  by (auto simp: CeedCompileHip_rejected_def after_def then_run_def fail_with_def
      split: prod.splits if_splits outcome.splits)

lemma CeedCompileHip_accepted_calls:
  "HiprtcCompileProgram n opts \<notin> set (snd (CeedCompileHip_accepted env api ceed))"
  by (auto simp: CeedCompileHip_accepted_def after_def then_run_def fail_with_def Let_def
      split: prod.splits if_splits outcome.splits)

lemma CeedCompileCuda_compiler_call:
  assumes "NvrtcCompileProgram n opts \<in> set (snd (CeedCompileCuda env api ceed source options))"
  shows "n = length options + 4 \<and>
         (\<exists>d. backend_data ceed = Some d \<and>
              opts = CeedCompileCuda_opts options
                       (snd (cudaGetDeviceProperties api (Ceed_Cuda.deviceId d))))"
proof -
  have r: "NvrtcCompileProgram n opts \<notin> set (snd (CeedCompileCuda_rejected env api ceed x))" for x
    using CeedCompileCuda_rejected_calls[of env api ceed x] by auto
  show ?thesis
    using assms r CeedCompileCuda_accepted_calls[of n opts env api ceed]
    by (auto simp: CeedCompileCuda_def after_def fail_with_def Let_def optsextra_def
        split: prod.splits if_splits option.splits)
qed

lemma CeedCompileHip_compiler_call:
  assumes "HiprtcCompileProgram n opts \<in> set (snd (CeedCompileHip env api ceed source options))"
  shows "n = length options + 4 \<and>
         (\<exists>d. backend_data ceed = Some d \<and>
              opts = CeedCompileHip_opts options
                       (snd (hipGetDeviceProperties api (Ceed_Hip.deviceId d))))"
  using assms CeedCompileHip_rejected_calls[of n opts env api ceed]
    CeedCompileHip_accepted_calls[of n opts env api ceed]
  by (auto simp: CeedCompileHip_def after_def fail_with_def Let_def optsextra_def
      split: prod.splits if_splits option.splits)

lemma show_int_examples:
  "show_int 0 = ''0''" "show_int 4 = ''4''" "show_int 7 = ''7''" "show_int 8 = ''8''"
  "show_int 906 = ''906''"
  by (simp_all add: show_int_def show_nat.simps)

lemmas compile_defs = CeedCompileCuda_def CeedCompileCuda_opts_def CeedCompileCuda_rejected_def
  CeedCompileCuda_accepted_def CeedCompileHip_def CeedCompileHip_opts_def
  CeedCompileHip_rejected_def CeedCompileHip_accepted_def FemeMallocArray_def CeedError_def
  FemeErrorReturn_def FemeErrorAbort_def FemeError_def FemeErrorImpl_def
  snprintf_def optslen_def optsextra_def show_int_examples

text \<open>
  C4, as the code has it. Whenever \<^verbatim>\<open>CeedCompileCuda\<close> or \<^verbatim>\<open>CeedCompileHip\<close>, called with
  n caller-supplied (name, value) pairs, calls the runtime compiler, it passes the count
  n + 4 and an array of n + 4 option strings: for each caller pair, in order, the first
  31 characters of "-D<name>=<value>" (the option buffer has 32 bytes), which is the whole
  string when it is shorter than 32 characters; then "-DCeedScalar=double",
  "-DCeedInt=int", "-default-device" and the first 31 characters of the architecture
  flag, made from the properties the device of the session answered with
  ("-arch=compute_<major><minor>" for CUDA, "--gpu-architecture=gfx<gcnArch>" for HIP).
  With no caller pair the array has exactly 4 strings.
\<close>

theorem compile_passes_options:
  "(NvrtcCompileProgram n opts \<in> set (snd (CeedCompileCuda env capi ceedc source options)) \<longrightarrow>
      n = length options + 4 \<and> length opts = length options + 4 \<and>
      (\<exists>d. backend_data ceedc = Some d \<and>
           opts = CeedCompileCuda_opts options
                    (snd (cudaGetDeviceProperties capi (Ceed_Cuda.deviceId d))))) \<and>
   (HiprtcCompileProgram n opts \<in> set (snd (CeedCompileHip env hapi ceedh source options)) \<longrightarrow>
      n = length options + 4 \<and> length opts = length options + 4 \<and>
      (\<exists>d. backend_data ceedh = Some d \<and>
           opts = CeedCompileHip_opts options
                    (snd (hipGetDeviceProperties hapi (Ceed_Hip.deviceId d))))) \<and>
   CeedCompileCuda_opts options cprop =
     map (\<lambda>(name, val). take 31 (''-D'' @ name @ ''='' @ show_int val)) options @
     [''-DCeedScalar=double'', ''-DCeedInt=int'', ''-default-device'',
      take 31 (''-arch=compute_'' @ show_int (major cprop) @ show_int (minor cprop))] \<and>
   CeedCompileHip_opts options hprop =
     map (\<lambda>(name, val). take 31 (''-D'' @ name @ ''='' @ show_int val)) options @
     [''-DCeedScalar=double'', ''-DCeedInt=int'', ''-default-device'',
      take 31 (''--gpu-architecture=gfx'' @ show_int (gcnArch hprop))] \<and>
   (list_all (\<lambda>(name, val). length (''-D'' @ name @ ''='' @ show_int val) < 32) options \<longrightarrow>
      take (length options) (CeedCompileCuda_opts options cprop) =
        map (\<lambda>(name, val). ''-D'' @ name @ ''='' @ show_int val) options \<and>
      take (length options) (CeedCompileHip_opts options hprop) =
        map (\<lambda>(name, val). ''-D'' @ name @ ''='' @ show_int val) options) \<and>
   length (CeedCompileCuda_opts [] cprop) = 4 \<and> length (CeedCompileHip_opts [] hprop) = 4"
proof -
  have c: "CeedCompileCuda_opts options cprop =
     map (\<lambda>(name, val). take 31 (''-D'' @ name @ ''='' @ show_int val)) options @
     [''-DCeedScalar=double'', ''-DCeedInt=int'', ''-default-device'',
      take 31 (''-arch=compute_'' @ show_int (major cprop) @ show_int (minor cprop))]" for options cprop
    by (simp add: CeedCompileCuda_opts_def snprintf_def optslen_def Let_def)
  have h: "CeedCompileHip_opts options hprop =
     map (\<lambda>(name, val). take 31 (''-D'' @ name @ ''='' @ show_int val)) options @
     [''-DCeedScalar=double'', ''-DCeedInt=int'', ''-default-device'',
      take 31 (''--gpu-architecture=gfx'' @ show_int (gcnArch hprop))]" for options hprop
    by (simp add: CeedCompileHip_opts_def snprintf_def optslen_def Let_def)
  have f: "map (\<lambda>(name, val). take 31 (''-D'' @ name @ ''='' @ show_int val)) options =
           map (\<lambda>(name, val). ''-D'' @ name @ ''='' @ show_int val) options"
    if "list_all (\<lambda>(name, val). length (''-D'' @ name @ ''='' @ show_int val) < 32) options"
    using that by (induction options) auto
  show ?thesis
    using CeedCompileCuda_compiler_call[of n opts env capi ceedc source options]
      CeedCompileHip_compiler_call[of n opts env hapi ceedh source options] f
    by (auto simp: c h)
qed

theorem compile_passes_options_witness:
  "NvrtcCompileProgram 5
     [''-DQ1D=4'', ''-DCeedScalar=double'', ''-DCeedInt=int'', ''-default-device'',
      ''-arch=compute_70'']
     \<in> set (snd (CeedCompileCuda example_env example_cuda example_ceed_cuda ''good''
                  [(''Q1D'', 4)])) \<and>
   HiprtcCompileProgram 5
     [''-DQ1D=4'', ''-DCeedScalar=double'', ''-DCeedInt=int'', ''-default-device'',
      ''--gpu-architecture=gfx906'']
     \<in> set (snd (CeedCompileHip example_env example_hip example_ceed_hip ''good''
                  [(''Q1D'', 4)])) \<and>
   list_all (\<lambda>(name, val). length (''-D'' @ name @ ''='' @ show_int val) < 32) [(''Q1D'', 4)] \<and>
   take (length [(''Q1D'', 4 :: int)])
     (CeedCompileCuda_opts [(''Q1D'', 4)] \<lparr>major = 7, minor = 0, maxThreadsPerBlock = 1024\<rparr>) =
     [''-DQ1D=4''] \<and>
   length (CeedCompileCuda_opts [] \<lparr>major = 7, minor = 0, maxThreadsPerBlock = 1024\<rparr>) = 4"
proof -
  have c: "NvrtcCompileProgram 5
     [''-DQ1D=4'', ''-DCeedScalar=double'', ''-DCeedInt=int'', ''-default-device'',
      ''-arch=compute_70'']
     \<in> set (snd (CeedCompileCuda example_env example_cuda example_ceed_cuda ''good''
                  [(''Q1D'', 4)]))"
    by (simp add: compile_defs example_env_def example_cuda_def example_ceed_cuda_def run_defs)
  have f: "list_all (\<lambda>(name, val). length (''-D'' @ name @ ''='' @ show_int val) < 32)
             [(''Q1D'', 4)]"
    by (simp add: show_int_examples)
  have h: "HiprtcCompileProgram 5
     [''-DQ1D=4'', ''-DCeedScalar=double'', ''-DCeedInt=int'', ''-default-device'',
      ''--gpu-architecture=gfx906'']
     \<in> set (snd (CeedCompileHip example_env example_hip example_ceed_hip ''good''
                  [(''Q1D'', 4)]))"
    by (simp add: compile_defs example_env_def example_hip_def example_ceed_hip_def run_defs)
  from compile_passes_options [where n = 5 and env = example_env and capi = example_cuda
      and hapi = example_hip and ceedc = example_ceed_cuda and ceedh = example_ceed_hip
      and source = "''good''" and options = "[(''Q1D'', 4)]"
      and cprop = "\<lparr>major = 7, minor = 0, maxThreadsPerBlock = 1024\<rparr>"
      and hprop = "\<lparr>gcnArch = 906, maxThreadsPerBlock = 1024\<rparr>"]
  show ?thesis using c h f by (simp add: show_int_examples)
qed

text \<open>
  C4, as stated, fails: for a pair whose "-D<name>=<value>" has 32 characters or more, the
  string passed to the compiler is not "-D<name>=<value>" but its first 31 characters.
\<close>

theorem compile_option_truncated:
  "snd (CeedCompileCuda example_env example_cuda example_ceed_cuda ''good''
          [(''NUM_QUADRATURE_POINTS_PER_ELEMENT'', 8)]) =
     [CudaFree, NvrtcCreateProgram ''good'', CudaGetDeviceProperties 0,
      NvrtcCompileProgram 5
        [''-DNUM_QUADRATURE_POINTS_PER_ELE'', ''-DCeedScalar=double'', ''-DCeedInt=int'',
         ''-default-device'', ''-arch=compute_70''],
      NvrtcGetPTXSize, PosixMemalign 4, NvrtcGetPTX, NvrtcDestroyProgram,
      CuModuleLoadData ''ptx'', Free] \<and>
   ''-DNUM_QUADRATURE_POINTS_PER_ELE'' \<noteq>
     ''-D'' @ ''NUM_QUADRATURE_POINTS_PER_ELEMENT'' @ ''='' @ show_int 8"
  by (simp add: compile_defs example_env_def example_cuda_def example_ceed_cuda_def run_defs)

subsection \<open>A rejected source\<close>

text \<open>
  C5, as the code has it. When the runtime compiler rejects the source and each of the
  three steps that fetch the log succeeds (the query of its size, the allocation, the
  fetch), \<^verbatim>\<open>CeedCompileCuda\<close> and \<^verbatim>\<open>CeedCompileHip\<close> make these three calls in this order
  and then report, through \<^verbatim>\<open>CeedError\<close> on the context, the compiler's result as the
  error code with the message made of the vendor's error string, a newline and the log
  as fetched. \<^verbatim>\<open>CeedError\<close> returns the code when the context's handler is the returning
  one, and then the compile function returns it; with any other handler, the aborting
  default included, it ends the process.
\<close>

theorem compile_rejected_reports_log:
  "(nvrtcCreateProgram capi source = 0 \<and> backend_data ceedc = Some dc \<and>
    cudaGetDeviceProperties capi (Ceed_Cuda.deviceId dc) = (0, cprop) \<and>
    nvrtcCompileProgram capi source (CeedCompileCuda_opts options cprop) = result \<and>
    result \<noteq> 0 \<and> nvrtcGetProgramLogSize capi = (0, logsize) \<and>
    posix_memalign env logsize = 0 \<and> nvrtcGetProgramLog capi = (0, log) \<longrightarrow>
    CeedCompileCuda env capi ceedc source options =
      (map_outcome (\<lambda>e. (e, None))
         (CeedError ceedc result (nvrtcGetErrorString capi result @ [CHR 0x0A] @ log)),
       [CudaFree, NvrtcCreateProgram source, CudaGetDeviceProperties (Ceed_Cuda.deviceId dc),
        NvrtcCompileProgram (length options + 4) (CeedCompileCuda_opts options cprop),
        NvrtcGetProgramLogSize, PosixMemalign logsize, NvrtcGetProgramLog])) \<and>
   (hiprtcCreateProgram hapi source = 0 \<and> backend_data ceedh = Some dh \<and>
    hipGetDeviceProperties hapi (Ceed_Hip.deviceId dh) = (0, hprop) \<and>
    hiprtcCompileProgram hapi source (CeedCompileHip_opts options hprop) = result \<and>
    result \<noteq> 0 \<and> hiprtcGetProgramLogSize hapi = (0, logsize) \<and>
    posix_memalign env logsize = 0 \<and> hiprtcGetProgramLog hapi = (0, log) \<longrightarrow>
    CeedCompileHip env hapi ceedh source options =
      (map_outcome (\<lambda>e. (e, None))
         (CeedError ceedh result (hiprtcGetErrorString hapi result @ [CHR 0x0A] @ log)),
       [HipFree, HiprtcCreateProgram source, HipGetDeviceProperties (Ceed_Hip.deviceId dh),
        HiprtcCompileProgram (length options + 4) (CeedCompileHip_opts options hprop),
        HiprtcGetProgramLogSize, PosixMemalign logsize, HiprtcGetProgramLog])) \<and>
   CeedError ceedc code msg =
     (if error_handler ceedc = Some ErrorReturn then Returns code else Aborts code msg)"
proof (intro conjI impI)
  assume a: "nvrtcCreateProgram capi source = 0 \<and> backend_data ceedc = Some dc \<and>
    cudaGetDeviceProperties capi (Ceed_Cuda.deviceId dc) = (0, cprop) \<and>
    nvrtcCompileProgram capi source (CeedCompileCuda_opts options cprop) = result \<and>
    result \<noteq> 0 \<and> nvrtcGetProgramLogSize capi = (0, logsize) \<and>
    posix_memalign env logsize = 0 \<and> nvrtcGetProgramLog capi = (0, log)"
  have r: "CeedCompileCuda_rejected env capi ceedc result =
      (map_outcome (\<lambda>e. (e, None))
         (CeedError ceedc result (nvrtcGetErrorString capi result @ [CHR 0x0A] @ log)),
       [NvrtcGetProgramLogSize, PosixMemalign logsize, NvrtcGetProgramLog])"
    using a by (simp add: CeedCompileCuda_rejected_def after_def then_run_def fail_with_def
        FemeMallocArray_def)
  show "CeedCompileCuda env capi ceedc source options =
      (map_outcome (\<lambda>e. (e, None))
         (CeedError ceedc result (nvrtcGetErrorString capi result @ [CHR 0x0A] @ log)),
       [CudaFree, NvrtcCreateProgram source, CudaGetDeviceProperties (Ceed_Cuda.deviceId dc),
        NvrtcCompileProgram (length options + 4) (CeedCompileCuda_opts options cprop),
        NvrtcGetProgramLogSize, PosixMemalign logsize, NvrtcGetProgramLog])"
    using a by (simp add: CeedCompileCuda_def r after_def Let_def optsextra_def)
next
  assume a: "hiprtcCreateProgram hapi source = 0 \<and> backend_data ceedh = Some dh \<and>
    hipGetDeviceProperties hapi (Ceed_Hip.deviceId dh) = (0, hprop) \<and>
    hiprtcCompileProgram hapi source (CeedCompileHip_opts options hprop) = result \<and>
    result \<noteq> 0 \<and> hiprtcGetProgramLogSize hapi = (0, logsize) \<and>
    posix_memalign env logsize = 0 \<and> hiprtcGetProgramLog hapi = (0, log)"
  have r: "CeedCompileHip_rejected env hapi ceedh result =
      (map_outcome (\<lambda>e. (e, None))
         (CeedError ceedh result (hiprtcGetErrorString hapi result @ [CHR 0x0A] @ log)),
       [HiprtcGetProgramLogSize, PosixMemalign logsize, HiprtcGetProgramLog])"
    using a by (simp add: CeedCompileHip_rejected_def after_def then_run_def fail_with_def
        FemeMallocArray_def)
  show "CeedCompileHip env hapi ceedh source options =
      (map_outcome (\<lambda>e. (e, None))
         (CeedError ceedh result (hiprtcGetErrorString hapi result @ [CHR 0x0A] @ log)),
       [HipFree, HiprtcCreateProgram source, HipGetDeviceProperties (Ceed_Hip.deviceId dh),
        HiprtcCompileProgram (length options + 4) (CeedCompileHip_opts options hprop),
        HiprtcGetProgramLogSize, PosixMemalign logsize, HiprtcGetProgramLog])"
    using a by (simp add: CeedCompileHip_def r after_def Let_def optsextra_def)
next
  show "CeedError ceedc code msg =
     (if error_handler ceedc = Some ErrorReturn then Returns code else Aborts code msg)"
    by (simp add: CeedError_def FemeErrorReturn_def FemeErrorAbort_def
        split: option.splits errhandler.splits)
qed

theorem compile_rejected_reports_log_witness:
  "CeedCompileCuda example_env example_cuda example_ceed_cuda ''bad'' [(''Q1D'', 4)] =
     (Returns (6, None),
      [CudaFree, NvrtcCreateProgram ''bad'', CudaGetDeviceProperties 0,
       NvrtcCompileProgram 5
         [''-DQ1D=4'', ''-DCeedScalar=double'', ''-DCeedInt=int'', ''-default-device'',
          ''-arch=compute_70''],
       NvrtcGetProgramLogSize, PosixMemalign 9, NvrtcGetProgramLog]) \<and>
   CeedCompileHip example_env example_hip example_ceed_hip ''bad'' [(''Q1D'', 4)] =
     (Returns (6, None),
      [HipFree, HiprtcCreateProgram ''bad'', HipGetDeviceProperties 0,
       HiprtcCompileProgram 5
         [''-DQ1D=4'', ''-DCeedScalar=double'', ''-DCeedInt=int'', ''-default-device'',
          ''--gpu-architecture=gfx906''],
       HiprtcGetProgramLogSize, PosixMemalign 9, HiprtcGetProgramLog]) \<and>
   CeedError example_ceed_cuda 6 (''NVRTC_ERROR_COMPILATION'' @ [CHR 0x0A] @ ''error: x'') =
     Returns 6"
  using compile_rejected_reports_log [where env = example_env and capi = example_cuda
      and hapi = example_hip and ceedc = example_ceed_cuda and ceedh = example_ceed_hip
      and source = "''bad''" and options = "[(''Q1D'', 4)]" and result = 6
      and dc = "\<lparr>Ceed_Cuda.deviceId = 0, optblocksize = 1024, cublasHandle = None\<rparr>"
      and dh = "\<lparr>deviceId = 0, optblocksize = 1024\<rparr>"
      and cprop = "\<lparr>major = 7, minor = 0, maxThreadsPerBlock = 1024\<rparr>"
      and hprop = "\<lparr>gcnArch = 906, maxThreadsPerBlock = 1024\<rparr>"
      and logsize = 9 and log = "''error: x''" and code = 6
      and msg = "''NVRTC_ERROR_COMPILATION'' @ [CHR 0x0A] @ ''error: x''"]
  by (simp add: example_env_def example_cuda_def example_hip_def example_ceed_cuda_def
      example_ceed_hip_def CeedCompileCuda_opts_def CeedCompileHip_opts_def snprintf_def
      optslen_def show_int_examples CeedError_def FemeErrorReturn_def)

text \<open>
  C5, as stated, fails twice. With the aborting handler that \<^verbatim>\<open>FemeInit\<close> installs, a
  rejected source ends the process from this path. With a returning handler and a
  failing query of the log size, the compile function returns that query's error: the
  log is never fetched and the error carries neither the vendor string nor a log.
\<close>

theorem compile_rejected_aborts_or_lacks_log:
  "CeedCompileCuda example_env example_cuda
     (example_ceed_cuda\<lparr>error_handler := Some ErrorAbort\<rparr>) ''bad'' [] =
     (Aborts 6 (''NVRTC_ERROR_COMPILATION'' @ [CHR 0x0A] @ ''error: x''),
      [CudaFree, NvrtcCreateProgram ''bad'', CudaGetDeviceProperties 0,
       NvrtcCompileProgram 4
         [''-DCeedScalar=double'', ''-DCeedInt=int'', ''-default-device'', ''-arch=compute_70''],
       NvrtcGetProgramLogSize, PosixMemalign 9, NvrtcGetProgramLog]) \<and>
   CeedCompileCuda example_env (example_cuda\<lparr>nvrtcGetProgramLogSize := (7, 0)\<rparr>)
     example_ceed_cuda ''bad'' [] =
     (Returns (7, None),
      [CudaFree, NvrtcCreateProgram ''bad'', CudaGetDeviceProperties 0,
       NvrtcCompileProgram 4
         [''-DCeedScalar=double'', ''-DCeedInt=int'', ''-default-device'', ''-arch=compute_70''],
       NvrtcGetProgramLogSize])"
  by (simp add: compile_defs example_env_def example_cuda_def example_ceed_cuda_def run_defs)

subsection \<open>Launches\<close>

text \<open>
  C8. Each of the six launchers makes exactly one call to the driver
  (\<^verbatim>\<open>cuLaunchKernel\<close>, \<^verbatim>\<open>hipModuleLaunchKernel\<close>); in it the first grid dimension is the
  grid size given and the second and third grid dimensions are 1. The block is
  (blockSize, 1, 1) for \<^verbatim>\<open>CeedRunKernelCuda\<close> and \<^verbatim>\<open>CeedRunKernelHip\<close> and the three sizes
  given for the others; the shared memory size is 0 except for the two launchers that
  take it as an argument, which pass it on.
\<close>

theorem launch_grid_one_dimensional:
  "(\<exists>l. snd (CeedRunKernelCuda env api ceed k g b args) = [CuLaunchKernel l] \<and>
        gridDimX l = word_of_int g \<and> gridDimY l = 1 \<and> gridDimZ l = 1 \<and>
        blockDimX l = word_of_int b \<and> blockDimY l = 1 \<and> blockDimZ l = 1 \<and>
        sharedMemBytes l = 0) \<and>
   (\<exists>l. snd (CeedRunKernelDimCuda env api ceed k g bsx bsy bsz args) = [CuLaunchKernel l] \<and>
        gridDimX l = word_of_int g \<and> gridDimY l = 1 \<and> gridDimZ l = 1 \<and>
        blockDimX l = word_of_int bsx \<and> blockDimY l = word_of_int bsy \<and>
        blockDimZ l = word_of_int bsz \<and> sharedMemBytes l = 0) \<and>
   (\<exists>l. snd (CeedRunKernelDimSharedCuda env api ceed k g bsx bsy bsz sh args) = [CuLaunchKernel l] \<and>
        gridDimX l = word_of_int g \<and> gridDimY l = 1 \<and> gridDimZ l = 1 \<and>
        blockDimX l = word_of_int bsx \<and> blockDimY l = word_of_int bsy \<and>
        blockDimZ l = word_of_int bsz \<and> sharedMemBytes l = word_of_int sh) \<and>
   (\<exists>l. snd (CeedRunKernelHip env hapi ceed k g b args) = [HipModuleLaunchKernel l] \<and>
        gridDimX l = word_of_int g \<and> gridDimY l = 1 \<and> gridDimZ l = 1 \<and>
        blockDimX l = word_of_int b \<and> blockDimY l = 1 \<and> blockDimZ l = 1 \<and>
        sharedMemBytes l = 0) \<and>
   (\<exists>l. snd (CeedRunKernelDimHip env hapi ceed k g bsx bsy bsz args) = [HipModuleLaunchKernel l] \<and>
        gridDimX l = word_of_int g \<and> gridDimY l = 1 \<and> gridDimZ l = 1 \<and>
        blockDimX l = word_of_int bsx \<and> blockDimY l = word_of_int bsy \<and>
        blockDimZ l = word_of_int bsz \<and> sharedMemBytes l = 0) \<and>
   (\<exists>l. snd (CeedRunKernelDimSharedHip env hapi ceed k g bsx bsy bsz sh args) =
          [HipModuleLaunchKernel l] \<and>
        gridDimX l = word_of_int g \<and> gridDimY l = 1 \<and> gridDimZ l = 1 \<and>
        blockDimX l = word_of_int bsx \<and> blockDimY l = word_of_int bsy \<and>
        blockDimZ l = word_of_int bsz \<and> sharedMemBytes l = word_of_int sh)"
  by (simp add: CeedRunKernelCuda_def CeedRunKernelDimCuda_def CeedRunKernelDimSharedCuda_def
      CeedRunKernelHip_def CeedRunKernelDimHip_def CeedRunKernelDimSharedHip_def
      after_def Let_def)

theorem launch_grid_one_dimensional_witness:
  "CeedRunKernelDimSharedCuda example_env example_cuda example_ceed_cuda 5 100 8 8 2 4096 0 =
     (Returns 0,
      [CuLaunchKernel
         \<lparr>func = 5, gridDimX = 100, gridDimY = 1, gridDimZ = 1, blockDimX = 8,
          blockDimY = 8, blockDimZ = 2, sharedMemBytes = 4096, hStream = None,
          kernelParams = 0, extra = None\<rparr>]) \<and>
   CeedRunKernelHip example_env example_hip example_ceed_hip 5 100 256 0 =
     (Returns 0,
      [HipModuleLaunchKernel
         \<lparr>func = 5, gridDimX = 100, gridDimY = 1, gridDimZ = 1, blockDimX = 256,
          blockDimY = 1, blockDimZ = 1, sharedMemBytes = 0, hStream = None,
          kernelParams = 0, extra = None\<rparr>])"
  using launch_grid_one_dimensional [where env = example_env and api = example_cuda
      and hapi = example_hip and ceed = example_ceed_cuda and k = 5 and g = 100 and b = 256
      and bsx = 8 and bsy = 8 and bsz = 2 and sh = 4096 and args = 0]
  by (simp add: CeedRunKernelDimSharedCuda_def CeedRunKernelHip_def after_def Let_def
      example_cuda_def example_hip_def)

subsection \<open>The default mode of the OCCA backend\<close>

text \<open>
  C10, as the code has it. With \<^verbatim>\<open>cpuMode\<close> set, \<^verbatim>\<open>getDefaultDeviceMode\<close> never returns the
  empty string: it returns the first enabled one of "CUDA", "HIP", "Metal" and "OpenCL"
  when \<^verbatim>\<open>gpuMode\<close> is set too and one of them is enabled, and otherwise "OpenMP" when
  that mode is enabled and "Serial" when it is not. For every valid resource that contains
  "/cpu/occa" and whose properties hold no "mode", \<^verbatim>\<open>initCeed\<close> therefore does not take the
  branch "No available OCCA mode for the given resource": it goes on to make the device,
  with the mode that \<^verbatim>\<open>getDefaultDeviceMode\<close> returned; \<^verbatim>\<open>gpuMode\<close> is set in that call
  when the resource also contains "/gpu/occa" or "/*/occa".
\<close>

theorem occa_cpu_default_mode:
  assumes "str_find resource ''/cpu/occa'' \<noteq> None"
  shows "getDefaultDeviceMode api True gpuMode \<noteq> [] \<and>
    getDefaultDeviceMode api True gpuMode =
      (if gpuMode \<and> modeIsEnabled api ''CUDA'' then ''CUDA''
       else if gpuMode \<and> modeIsEnabled api ''HIP'' then ''HIP''
       else if gpuMode \<and> modeIsEnabled api ''Metal'' then ''Metal''
       else if gpuMode \<and> modeIsEnabled api ''OpenCL'' then ''OpenCL''
       else if modeIsEnabled api ''OpenMP'' then ''OpenMP'' else ''Serial'') \<and>
    ((length resource > 9 \<longrightarrow> resource ! 9 = CHR ''/'') \<and>
     occa_properties api (drop 10 resource) = Inr props \<and> props ''mode'' = None \<longrightarrow>
       initCeed env api resource ceed =
         initCeed_device env api ceed
           (props(''mode'' \<mapsto>
              getDefaultDeviceMode api True
                (str_find resource ''/gpu/occa'' \<noteq> None \<or>
                 str_find resource ''/*/occa'' \<noteq> None))))"
proof (intro conjI impI)
  show m: "getDefaultDeviceMode api True gpuMode \<noteq> []" for gpuMode
    by (simp add: getDefaultDeviceMode_def)
  show "getDefaultDeviceMode api True gpuMode =
      (if gpuMode \<and> modeIsEnabled api ''CUDA'' then ''CUDA''
       else if gpuMode \<and> modeIsEnabled api ''HIP'' then ''HIP''
       else if gpuMode \<and> modeIsEnabled api ''Metal'' then ''Metal''
       else if gpuMode \<and> modeIsEnabled api ''OpenCL'' then ''OpenCL''
       else if modeIsEnabled api ''OpenMP'' then ''OpenMP'' else ''Serial'')"
    by (simp add: getDefaultDeviceMode_def)
  assume v: "(length resource > 9 \<longrightarrow> resource ! 9 = CHR ''/'') \<and>
     occa_properties api (drop 10 resource) = Inr props \<and> props ''mode'' = None"
  let ?g = "str_find resource ''/gpu/occa'' \<noteq> None \<or> str_find resource ''/*/occa'' \<noteq> None"
  have nz: "length (getDefaultDeviceMode api True ?g) \<noteq> 0"
    using m[of ?g] by simp
  show "initCeed env api resource ceed =
         initCeed_device env api ceed
           (props(''mode'' \<mapsto> getDefaultDeviceMode api True ?g))"
  proof (cases "10 < length resource")
    case True
    then show ?thesis
      unfolding initCeed_def Let_def using assms v nz by simp
  next
    case False
    then have "drop 10 resource = []" by simp
    with v have "occa_properties api [] = Inr props" by simp
    then show ?thesis
      unfolding initCeed_def Let_def using assms v nz False by simp
  qed
qed

theorem occa_cpu_default_mode_witness:
  "str_find ''/cpu/occa'' ''/cpu/occa'' \<noteq> None \<and>
   getDefaultDeviceMode example_occa True False = ''OpenMP'' \<and>
   occa_properties example_occa (drop 10 ''/cpu/occa'') = Inr Map.empty \<and>
   initCeed example_env example_occa ''/cpu/occa'' example_ceed_occa =
     initCeed_device example_env example_occa example_ceed_occa
       (Map.empty(''mode'' \<mapsto> getDefaultDeviceMode example_occa True False))"
proof -
  have a: "str_find ''/cpu/occa'' ''/cpu/occa'' \<noteq> None" by simp
  from occa_cpu_default_mode [OF a, where api = example_occa and gpuMode = False
      and props = Map.empty and env = example_env and ceed = example_ceed_occa]
  show ?thesis using a by (simp add: example_occa_def)
qed

text \<open>
  C10, as stated, fails: a resource that contains "/cpu/occa" can contain "/gpu/occa"
  too, and with CUDA enabled the mode chosen for it is "CUDA", neither "OpenMP" nor
  "Serial".
\<close>

theorem occa_cpu_resource_gets_cuda:
  "str_find ''/cpu/occa/{dir: /gpu/occa}'' ''/cpu/occa'' = Some 0 \<and>
   initCeed example_env example_occa ''/cpu/occa/{dir: /gpu/occa}'' example_ceed_occa =
     (Returns (Returned 0,
        \<lparr>error_handler = Some ErrorReturn, backend_data = Some \<lparr>device = Some 1\<rparr>,
         dispatch_table = Map.empty\<rparr>),
      [Calloc, OccaDevice (Some ''CUDA'')]) \<and>
   getDefaultDeviceMode example_occa True True = ''CUDA''"
  by (simp add: initCeed_def initCeed_device_def example_env_def example_occa_def
      example_ceed_occa_def getDefaultDeviceMode_def run_defs)

end
